theory Spec2Isabelle
  imports Complex_Main
begin

section \<open>Values\<close>

subsection \<open>Floating-point numbers\<close>

text \<open>
  A numpy float is a real number or one of the three special values. Rounding, overflow
  and the sign of zero are not modelled: \<open>Fin x\<close> stands for the float nearest to
  \<open>x\<close>. What matters for the fit driver is kept: \<open>NaN\<close> is the "missing"
  sentinel, it propagates through arithmetic, and every comparison with it is false.
\<close>

datatype fl = NaN | PInf | NInf | Fin real

fun isfinite :: "fl \<Rightarrow> bool" where
  "isfinite (Fin x) = True"
| "isfinite x = False"

fun flt :: "fl \<Rightarrow> fl \<Rightarrow> bool" where
  "flt NaN y = False"
| "flt x NaN = False"
| "flt PInf y = False"
| "flt x NInf = False"
| "flt NInf y = True"
| "flt x PInf = True"
| "flt (Fin a) (Fin b) = (a < b)"

definition fgt :: "fl \<Rightarrow> fl \<Rightarrow> bool" where
  "fgt x y = flt y x"

definition fle :: "fl \<Rightarrow> fl \<Rightarrow> bool" where
  "fle x y = (x \<noteq> NaN \<and> y \<noteq> NaN \<and> (x = y \<or> flt x y))"

fun fadd :: "fl \<Rightarrow> fl \<Rightarrow> fl" where
  "fadd NaN y = NaN"
| "fadd x NaN = NaN"
| "fadd PInf NInf = NaN"
| "fadd NInf PInf = NaN"
| "fadd PInf y = PInf"
| "fadd x PInf = PInf"
| "fadd NInf y = NInf"
| "fadd x NInf = NInf"
| "fadd (Fin a) (Fin b) = Fin (a + b)"

text \<open>The infinity with the sign of \<open>s\<close>; zero times infinity is not a number.\<close>

definition signed_inf :: "real \<Rightarrow> fl" where
  "signed_inf s = (if 0 < s then PInf else if s < 0 then NInf else NaN)"

fun fmul :: "fl \<Rightarrow> fl \<Rightarrow> fl" where
  "fmul NaN y = NaN"
| "fmul x NaN = NaN"
| "fmul (Fin a) (Fin b) = Fin (a * b)"
| "fmul (Fin a) PInf = signed_inf a"
| "fmul (Fin a) NInf = signed_inf (- a)"
| "fmul PInf (Fin b) = signed_inf b"
| "fmul NInf (Fin b) = signed_inf (- b)"
| "fmul PInf PInf = PInf"
| "fmul NInf NInf = PInf"
| "fmul PInf NInf = NInf"
| "fmul NInf PInf = NInf"

fun fdiv :: "fl \<Rightarrow> fl \<Rightarrow> fl" where
  "fdiv NaN y = NaN"
| "fdiv x NaN = NaN"
| "fdiv (Fin a) (Fin b) = (if b = 0 then signed_inf a else Fin (a / b))"
| "fdiv (Fin a) y = Fin 0"
| "fdiv PInf (Fin b) = (if 0 \<le> b then PInf else NInf)"
| "fdiv NInf (Fin b) = (if 0 \<le> b then NInf else PInf)"
| "fdiv x y = NaN"

fun fabs :: "fl \<Rightarrow> fl" where
  "fabs NaN = NaN"
| "fabs PInf = PInf"
| "fabs NInf = PInf"
| "fabs (Fin a) = Fin \<bar>a\<bar>"

fun fsqrt :: "fl \<Rightarrow> fl" where
  "fsqrt NaN = NaN"
| "fsqrt PInf = PInf"
| "fsqrt NInf = NaN"
| "fsqrt (Fin a) = (if a < 0 then NaN else Fin (sqrt a))"

subsection \<open>Python values, exceptions and dictionaries\<close>

text \<open>
  The values the output record holds, and enough other Python values to say what
  \<open>type(status) == int\<close> rejects. A timestamp is a number of seconds.
\<close>

datatype pyval = PInt int | PFloat fl | PTime real | PBool bool | PStr string | PNone

datatype error = AssertionError | NameError

text \<open>
  A dictionary is an association list with at most one entry per key; storing under a
  key that is present replaces the value in place, as Python does.
\<close>

type_synonym pydict = "(string \<times> pyval) list"

fun dict_set :: "string \<Rightarrow> pyval \<Rightarrow> pydict \<Rightarrow> pydict" where
  "dict_set k v [] = [(k, v)]"
| "dict_set k v ((k', v') # d) = (if k' = k then (k, v) # d else (k', v') # dict_set k v d)"

text \<open>\<open>d.update(e)\<close>: the entries of \<open>e\<close> are stored one after the other.\<close>

fun dict_update :: "pydict \<Rightarrow> pydict \<Rightarrow> pydict" where
  "dict_update d [] = d"
| "dict_update d ((k, v) # e) = dict_update (dict_set k v d) e"

definition keys :: "pydict \<Rightarrow> string set" where
  "keys d = set (map fst d)"

section \<open>The status taxonomy and the missing-data record\<close>

definition statusdict :: "(int \<times> string) list" where
  "statusdict =
    [(1, ''Fitting successful''),
     (2, ''No magnetic field data available''),
     (3, ''Magnetic field varies too much for a reliable fit''),
     (4, ''Fitted bulk velocity outside distribution velocity bounds''),
     (5, ''Less than 6 points available for fitting''),
     (6, ''Least square fitting failed''),
     (9, ''Think there is more than one distribution in file''),
     (10, ''Proton peak not present in 3D distribution''),
     (11, ''Number density physically unrealistic''),
     (12, ''Less than 3 angular bins available in either direction''),
     (13, ''Temperature physically unrealistic'')]"

text \<open>
  \<open>return_nans\<close>: the assertion \<open>type(status) == int\<close> holds for a Python int only
  (not for a bool, a float, a string or None); a failed assertion raises.
\<close>

definition return_nans :: "pyval \<Rightarrow> real \<Rightarrow> int \<Rightarrow> error + pydict" where
  "return_nans status time instrument =
    (case status of
       PInt n \<Rightarrow>
         Inr [(''n_p'', PFloat NaN),
              (''vth_p_perp'', PFloat NaN),
              (''vth_p_par'', PFloat NaN),
              (''Tp_perp'', PFloat NaN),
              (''Tp_par'', PFloat NaN),
              (''vp_x'', PFloat NaN),
              (''vp_y'', PFloat NaN),
              (''vp_z'', PFloat NaN),
              (''Time'', PTime time),
              (''Status'', status),
              (''Instrument'', PInt instrument),
              (''B instrument'', PFloat NaN),
              (''Bx'', PFloat NaN),
              (''By'', PFloat NaN),
              (''Bz'', PFloat NaN),
              (''sigma B'', PFloat NaN)]
     | _ \<Rightarrow> Inl AssertionError)"

text \<open>The sixteen fields of the output record, in the order \<open>return_nans\<close> writes them.\<close>

definition output_fields :: "string list" where
  "output_fields =
     [''n_p'', ''vth_p_perp'', ''vth_p_par'', ''Tp_perp'', ''Tp_par'',
      ''vp_x'', ''vp_y'', ''vp_z'', ''Time'', ''Status'', ''Instrument'',
      ''B instrument'', ''Bx'', ''By'', ''Bz'', ''sigma B'']"

section \<open>Inputs\<close>

text \<open>
  One row of the distribution \<open>dist\<close> (here \<open>distr\<close>): the index levels \<open>Az\<close>, \<open>El\<close> and
  \<open>E_bin\<close>, and the columns \<open>counts\<close>, \<open>|v|\<close> (here \<open>v_abs\<close>), \<open>vx\<close>,
  \<open>vy\<close>, \<open>vz\<close> and \<open>pdf\<close>. Measured values are finite numbers.
\<close>

record sample =
  Az :: int
  El :: int
  E_bin :: int
  counts :: real
  v_abs :: real
  vx :: real
  vy :: real
  vz :: real
  pdf :: real

text \<open>
  One row of the 1-D distribution \<open>I1a\<close>: its index label and the columns \<open>v\<close> and
  \<open>df\<close>. \<open>Series.argmax\<close> answers with the index label of the first largest entry (in
  the pandas of the script's time; where it answers with the position, the label is the
  position).
\<close>

record row_1D =
  label_1D :: real
  v_1D :: real
  df_1D :: real

record fit_1D =
  status_1D :: int
  T_p :: fl

record params =
  ion_instrument :: int
  helios_vr :: fl
  helios_v :: fl

text \<open>One row of a magnetic field series: its timestamp and the three components.\<close>

record magrow =
  mtime :: real
  Bx :: real
  By :: real
  Bz :: real

type_synonym vec3 = "real \<times> real \<times> real"
type_synonym flvec = "fl \<times> fl \<times> fl"
type_synonym flmat = "flvec \<times> flvec \<times> flvec"

text \<open>
  The six fit parameters \<open>fitparams[0]\<close> to \<open>fitparams[5]\<close>, named as
  \<open>bi_maxwellian_3D\<close> names them.
\<close>

record fitparams =
  fp_A :: fl
  fp_vth_perp :: fl
  fp_vth_z :: fl
  fp_vbx :: fl
  fp_vby :: fl
  fp_vbz :: fl

text \<open>
  What the driver imports and this repository's sources do not hold: the helper
  \<open>rotationmatrix\<close>, scipy's \<open>leastsq\<close> (given the guesses, the velocities and the
  distribution function it answers with the parameters and its status \<open>ier\<close>; the
  residual it minimises is fixed by the driver), the constant of the ideal-gas relation
  and the proton mass. They are parameters of the model.
\<close>

record externals =
  rotationmatrix :: "vec3 \<Rightarrow> flmat"
  leastsq :: "fitparams \<Rightarrow> flvec list \<Rightarrow> real list \<Rightarrow> fitparams \<times> int"
  gas_const :: real
  m_p :: real

section \<open>Numerical helpers\<close>

text \<open>
  \<open>np.min\<close> and \<open>np.max\<close> of an array. numpy raises on an empty array; the driver
  calls them behind the gate \<open>dist.shape[0] <= 6\<close> only, on seven rows or more.
\<close>

definition np_min :: "real list \<Rightarrow> real" where
  "np_min xs = Min (set xs)"

definition np_max :: "real list \<Rightarrow> real" where
  "np_max xs = Max (set xs)"

text \<open>\<open>Series.max\<close> of pandas: not a number on an empty series.\<close>

definition series_max :: "real list \<Rightarrow> fl" where
  "series_max xs = (if xs = [] then NaN else Fin (Max (set xs)))"

text \<open>The row with the first largest \<open>df\<close>, of a series that is not empty.\<close>

fun argmax_from :: "row_1D \<Rightarrow> row_1D list \<Rightarrow> row_1D" where
  "argmax_from b [] = b"
| "argmax_from b (r # rs) = argmax_from (if df_1D b < df_1D r then r else b) rs"

text \<open>\<open>np.mean\<close>, \<open>np.std\<close> (the population standard deviation) and \<open>np.linalg.norm\<close>.\<close>

definition np_mean :: "real list \<Rightarrow> real" where
  "np_mean xs = sum_list xs / real (length xs)"

definition np_std :: "real list \<Rightarrow> real" where
  "np_std xs = sqrt (np_mean (map (\<lambda>x. \<bar>x - np_mean xs\<bar>\<^sup>2) xs))"

definition norm3 :: "vec3 \<Rightarrow> real" where
  "norm3 v = (case v of (a, b, c) \<Rightarrow> sqrt (a\<^sup>2 + b\<^sup>2 + c\<^sup>2))"

definition fnorm3 :: "flvec \<Rightarrow> fl" where
  "fnorm3 v = (case v of (a, b, c) \<Rightarrow> fsqrt (fadd (fadd (fmul a a) (fmul b b)) (fmul c c)))"

definition fsum :: "fl list \<Rightarrow> fl" where
  "fsum xs = foldl fadd (Fin 0) xs"

definition to_fl :: "vec3 \<Rightarrow> flvec" where
  "to_fl v = (case v of (a, b, c) \<Rightarrow> (Fin a, Fin b, Fin c))"

text \<open>Component \<open>i\<close> of a vector, for the indices 0, 1 and 2 the driver uses.\<close>

definition nth3 :: "'a \<times> 'a \<times> 'a \<Rightarrow> nat \<Rightarrow> 'a" where
  "nth3 v i = (case v of (a, b, c) \<Rightarrow> if i = 0 then a else if i = 1 then b else c)"

definition fdot :: "flvec \<Rightarrow> flvec \<Rightarrow> fl" where
  "fdot u v = (case u of (a, b, c) \<Rightarrow> case v of (x, y, z) \<Rightarrow>
     fadd (fadd (fmul a x) (fmul b y)) (fmul c z))"

text \<open>\<open>np.dot(R, v)\<close> for a matrix given by its rows, and \<open>R.T\<close>.\<close>

definition matvec :: "flmat \<Rightarrow> flvec \<Rightarrow> flvec" where
  "matvec R v = (case R of (r0, r1, r2) \<Rightarrow> (fdot r0 v, fdot r1 v, fdot r2 v))"

definition transpose3 :: "flmat \<Rightarrow> flmat" where
  "transpose3 R = (case R of ((a, b, c), (d, e, f), (g, h, i)) \<Rightarrow>
     ((a, d, g), (b, e, h), (c, f, i)))"

section \<open>Thermal speed and temperature\<close>

text \<open>
  Modelled from the spec: \<open>temp2vth\<close> and \<open>vth2temp\<close> belong to the imported package
  heliopy.plasma, which is not among the sources. The specification gives the ideal-gas
  relation, temperature proportional to mass times speed squared; \<open>c\<close> is the constant
  of proportionality.
\<close>

definition vth2temp :: "real \<Rightarrow> fl \<Rightarrow> real \<Rightarrow> fl" where
  "vth2temp c v m = fmul (Fin (c * m)) (fmul v v)"

definition temp2vth :: "real \<Rightarrow> fl \<Rightarrow> real \<Rightarrow> fl" where
  "temp2vth c T m = fsqrt (fdiv T (Fin (c * m)))"

section \<open>The fit driver\<close>

subsection \<open>The gates before the fit\<close>

text \<open>
  \<open>dist = dist[dist['|v|'] <= I1a['v'].max() * 1e3]\<close>: the rows whose speed is at or
  below the largest velocity of the 1-D distribution.
\<close>

definition truncate_dist :: "row_1D list \<Rightarrow> sample list \<Rightarrow> sample list" where
  "truncate_dist I1a distr =
     filter (\<lambda>s. fle (Fin (v_abs s)) (fmul (series_max (map v_1D I1a)) (Fin 1000))) distr"

definition phi_bins :: "sample list \<Rightarrow> nat" where
  "phi_bins distr = length (remdups (map Az distr))"

definition theta_bins :: "sample list \<Rightarrow> nat" where
  "theta_bins distr = length (remdups (map El distr))"

text \<open>
  The first part of \<open>iondistfitting\<close>, up to the last early return before the
  magnetic field is read: \<open>Inl\<close> the status the driver returns with, \<open>Inr\<close> the
  truncated distribution it goes on with.
\<close>

definition prefit_gates :: "sample list \<Rightarrow> fit_1D \<Rightarrow> row_1D list \<Rightarrow> int + sample list" where
  "prefit_gates distr fit_1D I1a =
     (if status_1D fit_1D = 9 then Inl 9
      else if list_ex (\<lambda>s. counts s < 0) distr then Inl 9
      else
        let distr = truncate_dist I1a distr in
        if length distr \<le> 6 then Inl 5
        else if phi_bins distr < 3 \<or> theta_bins distr < 3 then Inl 12
        else
          let vs_3D = map (\<lambda>s. v_abs s / 1000) distr in
          (case I1a of
             [] \<Rightarrow> Inr distr
           | r # rs \<Rightarrow>
               if label_1D (argmax_from r rs) < np_min vs_3D then Inl 10 else Inr distr))"

subsection \<open>The magnetic field\<close>

text \<open>The rows of a series strictly inside the measurement window.\<close>

definition in_window :: "real \<Rightarrow> real \<Rightarrow> magrow list \<Rightarrow> magrow list" where
  "in_window dist_starttime dist_endtime mag =
     filter (\<lambda>r. dist_starttime < mtime r \<and> mtime r < dist_endtime) mag"

text \<open>
  The choice of the series: \<open>magempty\<close>, the selected rows \<open>mag\<close> and the value
  stored under \<open>'B instrument'\<close>. Where Python leaves \<open>mag\<close> unassigned (no 4 Hz
  series) it is the empty list here; the driver reads it only when \<open>magempty\<close> is false.
\<close>

definition select_mag ::
  "magrow list option \<Rightarrow> magrow list option \<Rightarrow> real \<Rightarrow> real \<Rightarrow> bool \<times> magrow list \<times> pyval" where
  "select_mag mag4hz mag6s dist_starttime dist_endtime =
     (let (magempty, mag) =
            (case mag4hz of
               None \<Rightarrow> (True, [])
             | Some m4 \<Rightarrow>
                 (let mag = in_window dist_starttime dist_endtime m4 in (mag = [], mag)))
      in
        if magempty \<and> mag6s \<noteq> None then
          (case mag6s of
             Some m6 \<Rightarrow>
               (let mag = in_window dist_starttime dist_endtime m6;
                    magempty = (mag = [])
                in if magempty then (magempty, mag, PFloat NaN) else (magempty, mag, PInt 2))
           | None \<Rightarrow> (magempty, mag, PInt 1))
        else (magempty, mag, PInt 1))"

text \<open>
  The branch on \<open>magempty\<close> after the choice: the field entries of \<open>output\<close>, the
  rotation matrix (\<open>None\<close> where Python leaves \<open>R\<close> unassigned) and the velocities
  the fit works on.
\<close>

definition field_frame ::
  "externals \<Rightarrow> bool \<Rightarrow> magrow list \<Rightarrow> vec3 list \<Rightarrow> pydict \<Rightarrow> pydict \<times> flmat option \<times> flvec list" where
  "field_frame ext magempty mag vs output =
     (if \<not> magempty then
        let B = (np_mean (map Bx mag), np_mean (map By mag), np_mean (map Bz mag));
            sigmaB = (np_std (map Bx mag), np_std (map By mag), np_std (map Bz mag));
            sigmaB = norm3 sigmaB;
            output = dict_set ''Bx'' (PFloat (Fin (nth3 B 0))) output;
            output = dict_set ''By'' (PFloat (Fin (nth3 B 1))) output;
            output = dict_set ''Bz'' (PFloat (Fin (nth3 B 2))) output;
            output = dict_set ''sigma B'' (PFloat (Fin sigmaB)) output;
            R = rotationmatrix ext B;
            vprime = map (\<lambda>v. matvec R (to_fl v)) vs
        in (output, Some R, vprime)
      else
        let output = dict_set ''Bx'' (PFloat NaN) output;
            output = dict_set ''By'' (PFloat NaN) output;
            output = dict_set ''Bz'' (PFloat NaN) output;
            output = dict_set ''sigma B'' (PFloat NaN) output;
            vprime = map to_fl vs
        in (output, None, vprime))"

subsection \<open>The initial guesses\<close>

definition vp_guess :: "real list \<Rightarrow> flvec list \<Rightarrow> nat \<Rightarrow> fl" where
  "vp_guess df vprime i =
     fdiv (fsum (map (\<lambda>(d, v). fmul (Fin d) (nth3 v i)) (zip df vprime))) (Fin (sum_list df))"

definition vthp_guess :: "externals \<Rightarrow> fit_1D \<Rightarrow> fl" where
  "vthp_guess ext fit_1D =
     (let g = temp2vth (gas_const ext) (T_p fit_1D) (m_p ext) in
      if (\<not> isfinite g) \<or> flt g (Fin 10) \<or> fgt g (Fin 100) then Fin 40 else g)"

definition guesses :: "externals \<Rightarrow> fit_1D \<Rightarrow> real list \<Rightarrow> flvec list \<Rightarrow> fitparams" where
  "guesses ext fit_1D df vprime =
     \<lparr>fp_A = Fin (np_max df),
      fp_vth_perp = vthp_guess ext fit_1D,
      fp_vth_z = vthp_guess ext fit_1D,
      fp_vbx = vp_guess df vprime 0,
      fp_vby = vp_guess df vprime 1,
      fp_vbz = vp_guess df vprime 2\<rparr>"

subsection \<open>The gates after the fit\<close>

text \<open>
  The three early returns that follow the solver: the status the driver returns with, or
  \<open>None\<close> when it goes on.
\<close>

definition postfit_gates :: "fitparams \<Rightarrow> int \<Rightarrow> real list \<Rightarrow> bool \<Rightarrow> int option" where
  "postfit_gates fitparams fitstatus df magempty =
     (if fitstatus \<notin> set [1, 2, 3, 4] then Some 6
      else if (fgt (fp_A fitparams) (Fin (20 * np_max df)) \<or>
               flt (fp_A fitparams) (Fin (0.1 * np_max df))) \<and> \<not> magempty then Some 11
      else if (flt (fp_vth_perp fitparams) (Fin 5) \<or>
               flt (fp_vth_z fitparams) (Fin 5)) \<and> \<not> magempty then Some 12
      else None)"

subsection \<open>The fitted parameters\<close>

text \<open>
  The loop \<open>for i in range(0, 3)\<close> of \<open>process_fitparams\<close>, over the indices that are
  left: true when it returns 4.
\<close>

fun bulk_check :: "nat list \<Rightarrow> flvec \<Rightarrow> vec3 list \<Rightarrow> bool" where
  "bulk_check [] v vs = False"
| "bulk_check (i # rest) v vs =
     (if flt (nth3 v i) (Fin (np_min (map (\<lambda>u. nth3 u i) vs))) \<or>
         fgt (nth3 v i) (Fin (np_max (map (\<lambda>u. nth3 u i) vs))) then True
      else if flt (fnorm3 v) (Fin (np_min (map norm3 vs))) then True
      else bulk_check rest v vs)"

text \<open>
  \<open>process_fitparams\<close>, with what the nested function takes from the enclosing one
  (\<open>magempty\<close>, \<open>R\<close>, \<open>vs\<close> and \<open>params\<close>) as arguments. It returns the number 4 or
  the dictionary of the fitted quantities; reading \<open>R\<close> while it is unassigned raises.
\<close>

definition process_fitparams ::
  "externals \<Rightarrow> params \<Rightarrow> bool \<Rightarrow> flmat option \<Rightarrow> vec3 list \<Rightarrow> fitparams \<Rightarrow> string
     \<Rightarrow> error + (int + pydict)" where
  "process_fitparams ext params magempty R vs fitparams species =
     (let v = (fp_vbx fitparams, fp_vby fitparams, fp_vbz fitparams);
          fitparams = (if magempty then fitparams\<lparr>fp_vth_perp := NaN, fp_vth_z := NaN\<rparr>
                       else fitparams)
      in
        case (if magempty then Inr v
              else case R of None \<Rightarrow> Inl NameError
                           | Some R \<Rightarrow> Inr (matvec (transpose3 R) v)) of
          Inl e \<Rightarrow> Inl e
        | Inr v \<Rightarrow>
            if bulk_check [0, 1, 2] v vs then Inr (Inl 4)
            else
              let fit_dict = [(''vth_'' @ species @ ''_perp'', PFloat (fabs (fp_vth_perp fitparams))),
                              (''vth_'' @ species @ ''_par'', PFloat (fabs (fp_vth_z fitparams)))];
                  m = m_p ext;
                  fit_dict = dict_set (''T'' @ species @ ''_perp'')
                     (PFloat (vth2temp (gas_const ext) (fabs (fp_vth_perp fitparams)) m)) fit_dict;
                  fit_dict = dict_set (''T'' @ species @ ''_par'')
                     (PFloat (vth2temp (gas_const ext) (fabs (fp_vth_z fitparams)) m)) fit_dict;
                  n = foldl fmul (fp_A fitparams)
                        [Fin (pi powr 1.5),
                         fabs (fp_vth_perp fitparams), Fin 1000,
                         fabs (fp_vth_perp fitparams), Fin 1000,
                         fabs (fp_vth_z fitparams), Fin 1000];
                  n = fmul n (Fin (1 / 1000000));
                  fit_dict = dict_update fit_dict [(''n_'' @ species, PFloat n)];
                  v_x = fadd (nth3 v 0) (helios_vr params);
                  v_y = fadd (nth3 v 1) (helios_v params);
                  v_z = nth3 v 2;
                  fit_dict = dict_update fit_dict
                     [(''v'' @ species @ ''_x'', PFloat v_x),
                      (''v'' @ species @ ''_y'', PFloat v_y),
                      (''v'' @ species @ ''_z'', PFloat v_z)]
              in Inr (Inr fit_dict))"

subsection \<open>From the window to the solver\<close>

text \<open>
  What \<open>iondistfitting\<close> has in hand when \<open>leastsq\<close> has answered: \<open>magempty\<close>,
  the selected field rows \<open>mag\<close>, \<open>output\<close>, the rotation \<open>R\<close>, the velocities
  \<open>vs\<close>, the distribution function \<open>df\<close>, and the solver's parameters and status.
\<close>

record fitted =
  magempty_of :: bool
  mag_of :: "magrow list"
  output_of :: pydict
  R_of :: "flmat option"
  vs_of :: "vec3 list"
  df_of :: "real list"
  fitparams_of :: fitparams
  fitstatus_of :: int

text \<open>
  The window in which the distribution was measured: one second for each energy bin, from
  the smallest bin to the end of the largest.
\<close>

definition dist_starttime :: "real \<Rightarrow> sample list \<Rightarrow> real" where
  "dist_starttime starttime distr = starttime + of_int (Min (set (map E_bin distr)))"

definition dist_endtime :: "real \<Rightarrow> sample list \<Rightarrow> real" where
  "dist_endtime starttime distr = starttime + of_int (Max (set (map E_bin distr)) + 1)"

text \<open>
  The part of \<open>iondistfitting\<close> between the last gate before the fit and the first gate
  after it, for the truncated distribution.
\<close>

definition fit_stage ::
  "externals \<Rightarrow> sample list \<Rightarrow> fit_1D \<Rightarrow> magrow list option \<Rightarrow> magrow list option \<Rightarrow> real
     \<Rightarrow> pydict \<Rightarrow> fitted" where
  "fit_stage ext distr fit_1D mag4hz mag6s starttime output =
     (let df = map pdf distr;
          vs = map (\<lambda>s. (vx s / 1000, vy s / 1000, vz s / 1000)) distr;
          (magempty, mag, b_instrument) =
             select_mag mag4hz mag6s (dist_starttime starttime distr)
               (dist_endtime starttime distr);
          output = dict_set ''B instrument'' b_instrument output;
          (output, R, vprime) = field_frame ext magempty mag vs output;
          (fitparams, fitstatus) = leastsq ext (guesses ext fit_1D df vprime) vprime df
      in \<lparr>magempty_of = magempty, mag_of = mag, output_of = output, R_of = R, vs_of = vs,
          df_of = df, fitparams_of = fitparams, fitstatus_of = fitstatus\<rparr>)"

subsection \<open>The driver\<close>

text \<open>
  \<open>iondistfitting\<close>. The argument \<open>I1b\<close> is never read and \<open>plotfigs\<close> only prints;
  both are left out. \<open>int(params['ion_instrument'])\<close> is the instrument number.
\<close>

definition iondistfitting ::
  "externals \<Rightarrow> sample list \<Rightarrow> params \<Rightarrow> fit_1D \<Rightarrow> magrow list option \<Rightarrow> magrow list option
     \<Rightarrow> real \<Rightarrow> row_1D list \<Rightarrow> error + pydict" where
  "iondistfitting ext distr params fit_1D mag4hz mag6s starttime I1a =
     (let output = [];
          instrument = ion_instrument params;
          output = dict_set ''Instrument'' (PInt instrument) output
      in
        case prefit_gates distr fit_1D I1a of
          Inl status \<Rightarrow> return_nans (PInt status) starttime instrument
        | Inr distr \<Rightarrow>
            (let f = fit_stage ext distr fit_1D mag4hz mag6s starttime output in
               case postfit_gates (fitparams_of f) (fitstatus_of f) (df_of f) (magempty_of f) of
                 Some status \<Rightarrow> return_nans (PInt status) starttime instrument
               | None \<Rightarrow>
                   (case process_fitparams ext params (magempty_of f) (R_of f) (vs_of f)
                           (fitparams_of f) ''p'' of
                      Inl e \<Rightarrow> Inl e
                    | Inr (Inl status) \<Rightarrow> return_nans (PInt status) starttime instrument
                    | Inr (Inr fit_dict) \<Rightarrow>
                        (let output = dict_update (output_of f) fit_dict;
                             status = (if magempty_of f then 2 else 1);
                             output = dict_update output
                                [(''Time'', PTime starttime),
                                 (''Status'', PInt status),
                                 (''Instrument'', PInt instrument)]
                         in Inr output))))"

section \<open>Concrete inputs\<close>

text \<open>
  A small distribution for evaluating the driver: seven samples in three azimuth and three
  elevation bins, measured over seven seconds, with velocities of 1 km/s along the axes.
\<close>

definition ex_sample :: "int \<Rightarrow> int \<Rightarrow> int \<Rightarrow> real \<Rightarrow> real \<Rightarrow> real \<Rightarrow> real \<Rightarrow> sample" where
  "ex_sample az el eb x y z p =
     \<lparr>Az = az, El = el, E_bin = eb, counts = 1, v_abs = 1000, vx = x, vy = y, vz = z, pdf = p\<rparr>"

definition ex_dist :: "sample list" where
  "ex_dist =
     [ex_sample 0 0 0 1000 0 0 1,
      ex_sample 1 1 1 (- 1000) 0 0 1,
      ex_sample 2 2 2 0 1000 0 1,
      ex_sample 0 1 3 0 (- 1000) 0 1,
      ex_sample 1 2 4 0 0 1000 1,
      ex_sample 2 0 5 0 0 (- 1000) 1,
      ex_sample 0 0 6 0 0 0 2]"

text \<open>A 1-D distribution whose largest velocity is 2 km/s and whose peak has the label 1.\<close>

definition ex_I1a :: "row_1D list" where
  "ex_I1a = [\<lparr>label_1D = 0, v_1D = 1 / 2, df_1D = 1\<rparr>, \<lparr>label_1D = 1, v_1D = 2, df_1D = 3\<rparr>]"

definition ex_fit_1D :: fit_1D where
  "ex_fit_1D = \<lparr>status_1D = 1, T_p = Fin 900\<rparr>"

definition ex_params :: params where
  "ex_params = \<lparr>ion_instrument = 1, helios_vr = Fin 30, helios_v = Fin 20\<rparr>"

text \<open>One field sample inside the window of a distribution that starts at second 100.\<close>

definition ex_mag :: "magrow list" where
  "ex_mag = [\<lparr>mtime = 101, Bx = 0, By = 0, Bz = 5\<rparr>]"

definition identity3 :: flmat where
  "identity3 = ((Fin 1, Fin 0, Fin 0), (Fin 0, Fin 1, Fin 0), (Fin 0, Fin 0, Fin 1))"

text \<open>
  Externals whose solver answers with the given parameters and status, and whose rotation
  is the identity (the field of \<open>ex_mag\<close> is along z already).
\<close>

definition ex_ext :: "fitparams \<Rightarrow> int \<Rightarrow> externals" where
  "ex_ext fp ier =
     \<lparr>rotationmatrix = (\<lambda>B. identity3), leastsq = (\<lambda>g v d. (fp, ier)), gas_const = 1, m_p = 1\<rparr>"

definition ex_fit :: "real \<Rightarrow> real \<Rightarrow> real \<Rightarrow> fitparams" where
  "ex_fit a w x =
     \<lparr>fp_A = Fin a, fp_vth_perp = Fin w, fp_vth_z = Fin 25,
      fp_vbx = Fin x, fp_vby = Fin 0, fp_vbz = Fin 0\<rparr>"

text \<open>Inputs that stop at each of the gates before the fit.\<close>

definition ex_fit_1D_two :: fit_1D where
  "ex_fit_1D_two = \<lparr>status_1D = 9, T_p = Fin 900\<rparr>"

definition ex_dist_neg :: "sample list" where
  "ex_dist_neg = [(ex_sample 0 0 0 0 0 0 1)\<lparr>counts := - 1\<rparr>]"

definition ex_I1a_slow :: "row_1D list" where
  "ex_I1a_slow = [\<lparr>label_1D = 0, v_1D = 1 / 2, df_1D = 1\<rparr>]"

definition ex_dist_one_az :: "sample list" where
  "ex_dist_one_az = map (\<lambda>s. s\<lparr>Az := 0\<rparr>) ex_dist"

definition ex_I1a_peak0 :: "row_1D list" where
  "ex_I1a_peak0 =
     [\<lparr>label_1D = 0, v_1D = 2, df_1D = 3\<rparr>, \<lparr>label_1D = 1, v_1D = 1, df_1D = 1\<rparr>]"

text \<open>The same distribution without the sample at rest: every sample has speed 1 km/s.\<close>

definition ex_dist_shell :: "sample list" where
  "ex_dist_shell = butlast ex_dist @ [ex_sample 0 0 6 1000 0 0 2]"

text \<open>
  The record of a run on \<open>ex_dist\<close> at second 100 with neither field series, when the
  solver converges on a bulk velocity at rest.
\<close>

definition ex_no_field_record :: pydict where
  "ex_no_field_record =
     [(''Instrument'', PInt 1), (''B instrument'', PInt 1),
      (''Bx'', PFloat NaN), (''By'', PFloat NaN), (''Bz'', PFloat NaN),
      (''sigma B'', PFloat NaN),
      (''vth_p_perp'', PFloat NaN), (''vth_p_par'', PFloat NaN),
      (''Tp_perp'', PFloat NaN), (''Tp_par'', PFloat NaN),
      (''n_p'', PFloat NaN),
      (''vp_x'', PFloat (Fin 30)), (''vp_y'', PFloat (Fin 20)), (''vp_z'', PFloat (Fin 0)),
      (''Time'', PTime 100), (''Status'', PInt 2)]"

section \<open>Evaluation\<close>

lemmas ex_defs = ex_sample_def ex_dist_def ex_I1a_def ex_fit_1D_def ex_params_def ex_mag_def
  identity3_def ex_ext_def ex_fit_def ex_fit_1D_two_def ex_dist_neg_def ex_I1a_slow_def
  ex_dist_one_az_def ex_I1a_peak0_def ex_dist_shell_def

lemmas model_defs = iondistfitting_def fit_stage_def dist_starttime_def dist_endtime_def
  prefit_gates_def truncate_dist_def phi_bins_def
  theta_bins_def series_max_def np_min_def np_max_def select_mag_def in_window_def
  field_frame_def np_mean_def np_std_def norm3_def fnorm3_def to_fl_def nth3_def fdot_def
  matvec_def transpose3_def postfit_gates_def process_fitparams_def return_nans_def
  fle_def fgt_def vth2temp_def

section \<open>The stages of the driver\<close>

lemma fmul_NaN_right [simp]: "fmul x NaN = NaN"
  by (cases x) simp_all

lemma fadd_NaN_right [simp]: "fadd x NaN = NaN"
  by (cases x) simp_all

lemma flt_NaN_right [simp]: "flt x NaN = False"
  by (cases x) simp_all

lemma prefit_gates_status:
  assumes "prefit_gates distr fit_1D I1a = Inl k"
  shows "k \<in> {5, 9, 10, 12}"
  using assms
  by (auto simp: prefit_gates_def Let_def split: if_splits list.splits)

text \<open>
  Past the gates the distribution has seven rows or more, so every \<open>np.min\<close> and
  \<open>np.max\<close> of the driver is taken over an array that is not empty.
\<close>

lemma prefit_gates_length:
  assumes "prefit_gates distr fit_1D I1a = Inr d"
  shows "6 < length d"
  using assms
  by (auto simp: prefit_gates_def Let_def split: if_splits list.splits)

lemma postfit_gates_status:
  assumes "postfit_gates fp ier df magempty = Some k"
  shows "k \<in> {6, 11, 12}"
  using assms
  by (auto simp: postfit_gates_def split: if_splits)

text \<open>
  \<open>process_fitparams\<close> returns 4 or the eight fitted quantities; without a magnetic field
  the thermal speeds, the temperatures and the density are not-a-number.
\<close>

lemma process_fitparams_form:
  assumes "magempty \<or> R \<noteq> None"
  shows "process_fitparams ext params magempty R vs fp ''p'' = Inr (Inl 4)
       \<or> (\<exists>a b c d n x y z.
            process_fitparams ext params magempty R vs fp ''p'' =
              Inr (Inr [(''vth_p_perp'', PFloat a), (''vth_p_par'', PFloat b),
                        (''Tp_perp'', PFloat c), (''Tp_par'', PFloat d),
                        (''n_p'', PFloat n),
                        (''vp_x'', PFloat x), (''vp_y'', PFloat y), (''vp_z'', PFloat z)])
            \<and> (magempty \<longrightarrow> a = NaN \<and> b = NaN \<and> c = NaN \<and> d = NaN \<and> n = NaN))"
  using assms
  by (cases R) (auto simp: process_fitparams_def vth2temp_def Let_def)

text \<open>What the stage before the solver leaves in \<open>output\<close>.\<close>

lemma fit_stage_output:
  "output_of (fit_stage ext d fit_1D mag4hz mag6s t [(''Instrument'', PInt i)]) =
     (let f = fit_stage ext d fit_1D mag4hz mag6s t [(''Instrument'', PInt i)];
          mag = mag_of f
      in [(''Instrument'', PInt i),
          (''B instrument'',
             snd (snd (select_mag mag4hz mag6s (dist_starttime t d) (dist_endtime t d)))),
          (''Bx'', PFloat (if magempty_of f then NaN else Fin (np_mean (map Bx mag)))),
          (''By'', PFloat (if magempty_of f then NaN else Fin (np_mean (map By mag)))),
          (''Bz'', PFloat (if magempty_of f then NaN else Fin (np_mean (map Bz mag)))),
          (''sigma B'', PFloat (if magempty_of f then NaN
             else Fin (norm3 (np_std (map Bx mag), np_std (map By mag), np_std (map Bz mag)))))])"
  by (simp add: fit_stage_def field_frame_def Let_def split_def nth3_def)

lemma fit_stage_select:
  "select_mag mag4hz mag6s (dist_starttime t d) (dist_endtime t d) = (me, mag, bi) \<Longrightarrow>
     magempty_of (fit_stage ext d fit_1D mag4hz mag6s t out) = me \<and>
     mag_of (fit_stage ext d fit_1D mag4hz mag6s t out) = mag"
  by (simp add: fit_stage_def Let_def split_def)

lemma fit_stage_R:
  "\<not> magempty_of (fit_stage ext d fit_1D mag4hz mag6s t out) \<Longrightarrow>
     R_of (fit_stage ext d fit_1D mag4hz mag6s t out) \<noteq> None"
  by (simp add: fit_stage_def field_frame_def Let_def split_def)

text \<open>With no 6 s series the value stored under \<open>'B instrument'\<close> is 1.\<close>

lemma select_mag_no_6s:
  "snd (snd (select_mag mag4hz None t0 t1)) = PInt 1"
  by (simp add: select_mag_def Let_def split_def split: option.splits)

text \<open>The loop over the three axes, and when \<open>process_fitparams\<close> returns 4.\<close>

lemma fit_stage_vs:
  "vs_of (fit_stage ext d fit_1D mag4hz mag6s t out) =
     map (\<lambda>s. (vx s / 1000, vy s / 1000, vz s / 1000)) d"
  by (simp add: fit_stage_def Let_def split_def)

lemma ex_less_3: "(\<exists>j<3. P j) = (P 0 \<or> P 1 \<or> P 2)" for P :: "nat \<Rightarrow> bool"
  by (auto simp: numeral_3_eq_3 less_Suc_eq numeral_2_eq_2)

lemma bulk_check_iff:
  "bulk_check [0, 1, 2] v vs =
     ((\<exists>j<3. flt (nth3 v j) (Fin (np_min (map (\<lambda>u. nth3 u j) vs))) \<or>
              fgt (nth3 v j) (Fin (np_max (map (\<lambda>u. nth3 u j) vs))))
      \<or> flt (fnorm3 v) (Fin (np_min (map norm3 vs))))"
  unfolding ex_less_3 by auto

lemma process_fitparams_four:
  assumes "(magempty \<and> v = (fp_vbx fp, fp_vby fp, fp_vbz fp)) \<or>
           (\<exists>R'. \<not> magempty \<and> R = Some R' \<and>
              v = matvec (transpose3 R') (fp_vbx fp, fp_vby fp, fp_vbz fp))"
    and "bulk_check [0, 1, 2] v vs"
  shows "process_fitparams ext params magempty R vs fp species = Inr (Inl 4)"
  using assms by (auto simp: process_fitparams_def Let_def simp del: bulk_check.simps)

text \<open>The driver after the gates before the fit have passed.\<close>

lemma driver_after_prefit:
  assumes "prefit_gates distr fit_1D I1a = Inr d"
  shows "iondistfitting ext distr params fit_1D mag4hz mag6s t I1a =
     (let i = ion_instrument params;
          f = fit_stage ext d fit_1D mag4hz mag6s t [(''Instrument'', PInt i)]
      in case postfit_gates (fitparams_of f) (fitstatus_of f) (df_of f) (magempty_of f) of
           Some status \<Rightarrow> return_nans (PInt status) t i
         | None \<Rightarrow>
             (case process_fitparams ext params (magempty_of f) (R_of f) (vs_of f)
                     (fitparams_of f) ''p'' of
                Inl e \<Rightarrow> Inl e
              | Inr (Inl status) \<Rightarrow> return_nans (PInt status) t i
              | Inr (Inr fit_dict) \<Rightarrow>
                  Inr (dict_update (dict_update (output_of f) fit_dict)
                         [(''Time'', PTime t),
                          (''Status'', PInt (if magempty_of f then 2 else 1)),
                          (''Instrument'', PInt i)])))"
  unfolding iondistfitting_def Let_def dict_set.simps
  by (simp add: assms)

text \<open>
  Every run of the driver ends in one of four ways: a gate before the fit returns, a gate
  after the fit returns, \<open>process_fitparams\<close> returns 4, or the record is completed.
\<close>

lemma driver_cases:
  fixes ext distr params fit_1D mag4hz mag6s t I1a
  defines "drv \<equiv> iondistfitting ext distr params fit_1D mag4hz mag6s t I1a"
    and "i \<equiv> ion_instrument params"
  shows
    "(\<exists>k. prefit_gates distr fit_1D I1a = Inl k \<and> drv = return_nans (PInt k) t i)
   \<or> (\<exists>d f. prefit_gates distr fit_1D I1a = Inr d
         \<and> f = fit_stage ext d fit_1D mag4hz mag6s t [(''Instrument'', PInt i)]
         \<and> ((\<exists>k. postfit_gates (fitparams_of f) (fitstatus_of f) (df_of f) (magempty_of f) = Some k
                 \<and> drv = return_nans (PInt k) t i)
            \<or> (postfit_gates (fitparams_of f) (fitstatus_of f) (df_of f) (magempty_of f) = None
                 \<and> process_fitparams ext params (magempty_of f) (R_of f) (vs_of f)
                      (fitparams_of f) ''p'' = Inr (Inl 4)
                 \<and> drv = return_nans (PInt 4) t i)
            \<or> (postfit_gates (fitparams_of f) (fitstatus_of f) (df_of f) (magempty_of f) = None
                 \<and> (\<exists>a b c e n x y z.
                      process_fitparams ext params (magempty_of f) (R_of f) (vs_of f)
                        (fitparams_of f) ''p'' =
                        Inr (Inr [(''vth_p_perp'', PFloat a), (''vth_p_par'', PFloat b),
                                  (''Tp_perp'', PFloat c), (''Tp_par'', PFloat e),
                                  (''n_p'', PFloat n),
                                  (''vp_x'', PFloat x), (''vp_y'', PFloat y), (''vp_z'', PFloat z)])
                      \<and> (magempty_of f \<longrightarrow> a = NaN \<and> b = NaN \<and> c = NaN \<and> e = NaN \<and> n = NaN)
                      \<and> drv = Inr (output_of f @
                                 [(''vth_p_perp'', PFloat a), (''vth_p_par'', PFloat b),
                                  (''Tp_perp'', PFloat c), (''Tp_par'', PFloat e),
                                  (''n_p'', PFloat n),
                                  (''vp_x'', PFloat x), (''vp_y'', PFloat y), (''vp_z'', PFloat z),
                                  (''Time'', PTime t),
                                  (''Status'', PInt (if magempty_of f then 2 else 1))])))))"
proof (cases "prefit_gates distr fit_1D I1a")
  case (Inl k)
  then show ?thesis by (simp add: drv_def i_def iondistfitting_def)
next
  case (Inr dd)
  define f where "f = fit_stage ext dd fit_1D mag4hz mag6s t [(''Instrument'', PInt i)]"
  have drv: "drv =
     (case postfit_gates (fitparams_of f) (fitstatus_of f) (df_of f) (magempty_of f) of
        Some status \<Rightarrow> return_nans (PInt status) t i
      | None \<Rightarrow>
          (case process_fitparams ext params (magempty_of f) (R_of f) (vs_of f)
                  (fitparams_of f) ''p'' of
             Inl e \<Rightarrow> Inl e
           | Inr (Inl status) \<Rightarrow> return_nans (PInt status) t i
           | Inr (Inr fit_dict) \<Rightarrow>
               Inr (dict_update (dict_update (output_of f) fit_dict)
                      [(''Time'', PTime t),
                       (''Status'', PInt (if magempty_of f then 2 else 1)),
                       (''Instrument'', PInt i)])))"
    unfolding drv_def i_def iondistfitting_def f_def Let_def dict_set.simps
    by (simp add: Inr)
  have out': "\<exists>bi bx by bz sb. output_of f =
        [(''Instrument'', PInt i), (''B instrument'', bi),
         (''Bx'', bx), (''By'', by), (''Bz'', bz), (''sigma B'', sb)]"
    unfolding f_def fit_stage_output Let_def by simp
  show ?thesis
  proof (cases "postfit_gates (fitparams_of f) (fitstatus_of f) (df_of f) (magempty_of f)")
    case (Some k)
    with Inr drv show ?thesis by (simp add: f_def)
  next
    case None
    have ok: "magempty_of f \<or> R_of f \<noteq> None"
      using fit_stage_R [of ext dd fit_1D mag4hz mag6s t] unfolding f_def by blast
    from process_fitparams_form [OF ok, of ext params "vs_of f" "fitparams_of f"]
    show ?thesis
    proof
      assume four: "process_fitparams ext params (magempty_of f) (R_of f) (vs_of f)
                      (fitparams_of f) ''p'' = Inr (Inl 4)"
      with Inr None drv show ?thesis by (simp add: f_def)
    next
      assume "\<exists>a b c d n x y z.
            process_fitparams ext params (magempty_of f) (R_of f) (vs_of f) (fitparams_of f) ''p'' =
              Inr (Inr [(''vth_p_perp'', PFloat a), (''vth_p_par'', PFloat b),
                        (''Tp_perp'', PFloat c), (''Tp_par'', PFloat d),
                        (''n_p'', PFloat n),
                        (''vp_x'', PFloat x), (''vp_y'', PFloat y), (''vp_z'', PFloat z)])
            \<and> (magempty_of f \<longrightarrow> a = NaN \<and> b = NaN \<and> c = NaN \<and> d = NaN \<and> n = NaN)"
      then obtain a b c e n x y z where fd:
        "process_fitparams ext params (magempty_of f) (R_of f) (vs_of f) (fitparams_of f) ''p'' =
              Inr (Inr [(''vth_p_perp'', PFloat a), (''vth_p_par'', PFloat b),
                        (''Tp_perp'', PFloat c), (''Tp_par'', PFloat e),
                        (''n_p'', PFloat n),
                        (''vp_x'', PFloat x), (''vp_y'', PFloat y), (''vp_z'', PFloat z)])"
        and nans: "magempty_of f \<longrightarrow> a = NaN \<and> b = NaN \<and> c = NaN \<and> e = NaN \<and> n = NaN"
        by blast
      from out' obtain bi bx "by" bz sb where o: "output_of f =
        [(''Instrument'', PInt i), (''B instrument'', bi),
         (''Bx'', bx), (''By'', by), (''Bz'', bz), (''sigma B'', sb)]" by blast
      have "drv = Inr (output_of f @
                                 [(''vth_p_perp'', PFloat a), (''vth_p_par'', PFloat b),
                                  (''Tp_perp'', PFloat c), (''Tp_par'', PFloat e),
                                  (''n_p'', PFloat n),
                                  (''vp_x'', PFloat x), (''vp_y'', PFloat y), (''vp_z'', PFloat z),
                                  (''Time'', PTime t),
                                  (''Status'', PInt (if magempty_of f then 2 else 1))])"
        using None fd o by (simp add: drv)
      with Inr None fd nans show ?thesis by (simp add: f_def)
    qed
  qed
qed

text \<open>
  Whatever the input, the driver returns a record with the sixteen fields, and its status
  is one of nine numbers.
\<close>

lemma return_nans_shape:
  "\<exists>out. return_nans (PInt k) t i = Inr out \<and> keys out = set output_fields
     \<and> distinct (map fst out) \<and> map_of out ''Status'' = Some (PInt k)"
  by (auto simp: return_nans_def keys_def output_fields_def)

lemma driver_shape:
  "\<exists>out k. iondistfitting ext distr params fit_1D mag4hz mag6s t I1a = Inr out
     \<and> keys out = set output_fields \<and> distinct (map fst out)
     \<and> map_of out ''Status'' = Some (PInt k) \<and> k \<in> {1, 2, 4, 5, 6, 9, 10, 11, 12}"
proof -
  let ?drv = "iondistfitting ext distr params fit_1D mag4hz mag6s t I1a"
  let ?i = "ion_instrument params"
  have rej: ?thesis if "?drv = return_nans (PInt k) t ?i" and "k \<in> {4, 5, 6, 9, 10, 11, 12}" for k
    using return_nans_shape [of k t ?i] that by auto
  from driver_cases [of distr fit_1D I1a ext params mag4hz mag6s t]
  consider
    (pre) k where "prefit_gates distr fit_1D I1a = Inl k" "?drv = return_nans (PInt k) t ?i"
  | (post) d k where "postfit_gates (fitparams_of (fit_stage ext d fit_1D mag4hz mag6s t [(''Instrument'', PInt ?i)]))
       (fitstatus_of (fit_stage ext d fit_1D mag4hz mag6s t [(''Instrument'', PInt ?i)]))
       (df_of (fit_stage ext d fit_1D mag4hz mag6s t [(''Instrument'', PInt ?i)]))
       (magempty_of (fit_stage ext d fit_1D mag4hz mag6s t [(''Instrument'', PInt ?i)])) = Some k"
       "?drv = return_nans (PInt k) t ?i"
  | (four) "?drv = return_nans (PInt 4) t ?i"
  | (complete) d a b c e n x y z where
      "?drv = Inr (output_of (fit_stage ext d fit_1D mag4hz mag6s t [(''Instrument'', PInt ?i)]) @
                                 [(''vth_p_perp'', PFloat a), (''vth_p_par'', PFloat b),
                                  (''Tp_perp'', PFloat c), (''Tp_par'', PFloat e),
                                  (''n_p'', PFloat n),
                                  (''vp_x'', PFloat x), (''vp_y'', PFloat y), (''vp_z'', PFloat z),
                                  (''Time'', PTime t),
                                  (''Status'', PInt (if magempty_of (fit_stage ext d fit_1D mag4hz mag6s t [(''Instrument'', PInt ?i)]) then 2 else 1))])"
    by blast
  then show ?thesis
  proof cases
    case pre
    from prefit_gates_status [OF pre(1)] have "k \<in> {4, 5, 6, 9, 10, 11, 12}" by auto
    with pre(2) show ?thesis by (rule rej)
  next
    case post
    from postfit_gates_status [OF post(1)] have "k \<in> {4, 5, 6, 9, 10, 11, 12}" by auto
    with post(2) show ?thesis by (rule rej)
  next
    case four
    then show ?thesis by (rule rej) simp
  next
    case complete
    then show ?thesis
      unfolding fit_stage_output Let_def
      by (auto simp: keys_def output_fields_def)
  qed
qed

text \<open>The concrete distribution passes the gates before the fit; its stage before the solver.\<close>

lemma ex_prefit: "prefit_gates ex_dist ex_fit_1D ex_I1a = Inr ex_dist"
  by (simp add: ex_defs model_defs)

lemma ex_stage_field:
  "fit_stage (ex_ext fp ier) ex_dist ex_fit_1D (Some ex_mag) None 100 out =
     \<lparr>magempty_of = False, mag_of = ex_mag,
      output_of = dict_set ''sigma B'' (PFloat (Fin 0)) (dict_set ''Bz'' (PFloat (Fin 5))
        (dict_set ''By'' (PFloat (Fin 0)) (dict_set ''Bx'' (PFloat (Fin 0))
          (dict_set ''B instrument'' (PInt 1) out)))),
      R_of = Some identity3,
      vs_of = [(1, 0, 0), (- 1, 0, 0), (0, 1, 0), (0, - 1, 0), (0, 0, 1), (0, 0, - 1), (0, 0, 0)],
      df_of = [1, 1, 1, 1, 1, 1, 2],
      fitparams_of = fp, fitstatus_of = ier\<rparr>"
  by (simp add: ex_defs model_defs)

lemma ex_stage_no_field:
  "fit_stage (ex_ext fp ier) ex_dist ex_fit_1D None None 100 out =
     \<lparr>magempty_of = True, mag_of = [],
      output_of = dict_set ''sigma B'' (PFloat NaN) (dict_set ''Bz'' (PFloat NaN)
        (dict_set ''By'' (PFloat NaN) (dict_set ''Bx'' (PFloat NaN)
          (dict_set ''B instrument'' (PInt 1) out)))),
      R_of = None,
      vs_of = [(1, 0, 0), (- 1, 0, 0), (0, 1, 0), (0, - 1, 0), (0, 0, 1), (0, 0, - 1), (0, 0, 0)],
      df_of = [1, 1, 1, 1, 1, 1, 2],
      fitparams_of = fp, fitstatus_of = ier\<rparr>"
  by (simp add: ex_defs model_defs)

lemma ex_prefit_shell: "prefit_gates ex_dist_shell ex_fit_1D ex_I1a = Inr ex_dist_shell"
  by (simp add: ex_defs model_defs)

lemma ex_stage_shell:
  "fit_stage (ex_ext fp ier) ex_dist_shell ex_fit_1D (Some ex_mag) None 100 out =
     \<lparr>magempty_of = False, mag_of = ex_mag,
      output_of = dict_set ''sigma B'' (PFloat (Fin 0)) (dict_set ''Bz'' (PFloat (Fin 5))
        (dict_set ''By'' (PFloat (Fin 0)) (dict_set ''Bx'' (PFloat (Fin 0))
          (dict_set ''B instrument'' (PInt 1) out)))),
      R_of = Some identity3,
      vs_of = [(1, 0, 0), (- 1, 0, 0), (0, 1, 0), (0, - 1, 0), (0, 0, 1), (0, 0, - 1), (1, 0, 0)],
      df_of = [1, 1, 1, 1, 1, 1, 2],
      fitparams_of = fp, fitstatus_of = ier\<rparr>"
  by (simp add: ex_defs model_defs)

lemma ex_no_field_run:
  "iondistfitting (ex_ext (ex_fit 2 30 0) 1) ex_dist ex_params ex_fit_1D None None 100 ex_I1a
     = Inr ex_no_field_record"
  by (simp add: driver_after_prefit [OF ex_prefit] ex_stage_no_field Let_def postfit_gates_def
      process_fitparams_def ex_fit_def ex_params_def fgt_def np_max_def np_min_def nth3_def
      fnorm3_def norm3_def vth2temp_def ex_no_field_record_def)

section \<open>Properties of the unit conversion\<close>

lemma temp_of_vth_of_temp:
  assumes "0 < q" and "0 < T"
  shows "fmul (Fin q) (fmul (fsqrt (fdiv (Fin T) (Fin q))) (fsqrt (fdiv (Fin T) (Fin q)))) = Fin T"
proof -
  from assms have nn: "0 \<le> T / q" by simp
  then have "\<not> T / q < 0" by (simp only: not_less)
  with assms have "fsqrt (fdiv (Fin T) (Fin q)) = Fin (sqrt (T / q))" by simp
  moreover have "q * (sqrt (T / q) * sqrt (T / q)) = T" using assms nn by simp
  ultimately show ?thesis by simp
qed

lemma vth_of_temp_of_vth:
  assumes "0 < q" and "0 \<le> v"
  shows "fsqrt (fdiv (fmul (Fin q) (fmul (Fin v) (Fin v))) (Fin q)) = Fin v"
  using assms by simp

text \<open>
  C7. For a positive constant of proportionality, every positive particle mass \<open>m\<close> and
  every temperature \<open>T > 0\<close>, converting the temperature to a thermal speed and back
  gives \<open>T\<close> again; and a thermal speed \<open>v \<ge> 0\<close> converted to a temperature and back
  gives \<open>v\<close>: the two conversions are inverse to each other. The numbers are real
  numbers here, so the round trip is exact.
\<close>

theorem vth_temp_roundtrip:
  assumes "0 < c" and "0 < m"
  shows "(0 < T \<longrightarrow> vth2temp c (temp2vth c (Fin T) m) m = Fin T)
       \<and> (0 \<le> v \<longrightarrow> temp2vth c (vth2temp c (Fin v) m) m = Fin v)"
proof -
  from assms have cm: "0 < c * m" by simp
  show ?thesis
    unfolding vth2temp_def temp2vth_def
    using temp_of_vth_of_temp [OF cm] vth_of_temp_of_vth [OF cm] by blast
qed

theorem vth_temp_roundtrip_witness:
  "vth2temp 2 (temp2vth 2 (Fin 8) 1) 1 = Fin 8 \<and> temp2vth 2 (vth2temp 2 (Fin 3) 1) 1 = Fin 3"
  using vth_temp_roundtrip [of 2 1 8 3] by simp

section \<open>Properties of the missing-data record\<close>

text \<open>
  C8. \<open>return_nans\<close> called with an integer status returns the record in which every
  physical field is not-a-number and \<open>Time\<close>, \<open>Status\<close> and \<open>Instrument\<close> are the
  arguments; called with a status that is not an integer, its assertion fails.
\<close>

theorem return_nans_status_type:
  "return_nans (PInt n) t i =
     Inr [(''n_p'', PFloat NaN), (''vth_p_perp'', PFloat NaN), (''vth_p_par'', PFloat NaN),
          (''Tp_perp'', PFloat NaN), (''Tp_par'', PFloat NaN),
          (''vp_x'', PFloat NaN), (''vp_y'', PFloat NaN), (''vp_z'', PFloat NaN),
          (''Time'', PTime t), (''Status'', PInt n), (''Instrument'', PInt i),
          (''B instrument'', PFloat NaN),
          (''Bx'', PFloat NaN), (''By'', PFloat NaN), (''Bz'', PFloat NaN),
          (''sigma B'', PFloat NaN)]
   \<and> ((\<forall>k. status \<noteq> PInt k) \<longrightarrow> return_nans status t i = Inl AssertionError)"
  by (cases status) (simp_all add: return_nans_def)

theorem return_nans_status_type_witness:
  "return_nans (PInt 5) 0 1 =
     Inr [(''n_p'', PFloat NaN), (''vth_p_perp'', PFloat NaN), (''vth_p_par'', PFloat NaN),
          (''Tp_perp'', PFloat NaN), (''Tp_par'', PFloat NaN),
          (''vp_x'', PFloat NaN), (''vp_y'', PFloat NaN), (''vp_z'', PFloat NaN),
          (''Time'', PTime 0), (''Status'', PInt 5), (''Instrument'', PInt 1),
          (''B instrument'', PFloat NaN),
          (''Bx'', PFloat NaN), (''By'', PFloat NaN), (''Bz'', PFloat NaN),
          (''sigma B'', PFloat NaN)]
   \<and> return_nans (PBool True) 0 1 = Inl AssertionError
   \<and> return_nans (PFloat (Fin 5)) 0 1 = Inl AssertionError"
  using return_nans_status_type [of 5 0 1 "PBool True"]
        return_nans_status_type [of 5 0 1 "PFloat (Fin 5)"]
  by simp

section \<open>The order of the gates before the fit\<close>

text \<open>
  C3. The gates before the fit are tried in a fixed order and the first that fails gives
  the status: (1) the 1-D fit has status 9: status 9; (2) a raw count is negative:
  status 9; (3) fewer than seven samples are left after the truncation at the largest
  velocity of the 1-D distribution: status 5; (4) fewer than three azimuth bins or three
  elevation bins are left: status 12; (5) the smallest sample speed is above the peak of
  the 1-D distribution: status 10. Each line assumes that the gates before it pass and
  nothing about the gates after it, so an earlier gate wins over a later one.
\<close>

theorem prefit_gate_order:
  fixes ext distr params fit_1D mag4hz mag6s t I1a
  defines "drv \<equiv> iondistfitting ext distr params fit_1D mag4hz mag6s t I1a"
    and "i \<equiv> ion_instrument params"
    and "d \<equiv> truncate_dist I1a distr"
  shows
    "(status_1D fit_1D = 9 \<longrightarrow> drv = return_nans (PInt 9) t i)
   \<and> (status_1D fit_1D \<noteq> 9 \<and> (\<exists>s \<in> set distr. counts s < 0)
        \<longrightarrow> drv = return_nans (PInt 9) t i)
   \<and> (status_1D fit_1D \<noteq> 9 \<and> (\<forall>s \<in> set distr. 0 \<le> counts s) \<and> length d < 7
        \<longrightarrow> drv = return_nans (PInt 5) t i)
   \<and> (status_1D fit_1D \<noteq> 9 \<and> (\<forall>s \<in> set distr. 0 \<le> counts s) \<and> 7 \<le> length d
        \<and> (phi_bins d < 3 \<or> theta_bins d < 3)
        \<longrightarrow> drv = return_nans (PInt 12) t i)
   \<and> (status_1D fit_1D \<noteq> 9 \<and> (\<forall>s \<in> set distr. 0 \<le> counts s) \<and> 7 \<le> length d
        \<and> 3 \<le> phi_bins d \<and> 3 \<le> theta_bins d
        \<and> (\<exists>r rs. I1a = r # rs
              \<and> label_1D (argmax_from r rs) < np_min (map (\<lambda>s. v_abs s / 1000) d))
        \<longrightarrow> drv = return_nans (PInt 10) t i)"
  unfolding drv_def i_def d_def iondistfitting_def prefit_gates_def Let_def list_ex_iff
  by (auto simp: not_less not_le)

theorem prefit_gate_order_witness:
  "iondistfitting (ex_ext (ex_fit 2 30 0) 1) [] ex_params ex_fit_1D_two None None 100 []
     = return_nans (PInt 9) 100 1
   \<and> iondistfitting (ex_ext (ex_fit 2 30 0) 1) ex_dist_neg ex_params ex_fit_1D None None 100 ex_I1a
     = return_nans (PInt 9) 100 1
   \<and> iondistfitting (ex_ext (ex_fit 2 30 0) 1) ex_dist ex_params ex_fit_1D None None 100 ex_I1a_slow
     = return_nans (PInt 5) 100 1
   \<and> iondistfitting (ex_ext (ex_fit 2 30 0) 1) ex_dist_one_az ex_params ex_fit_1D None None 100
        ex_I1a_peak0
     = return_nans (PInt 12) 100 1
   \<and> iondistfitting (ex_ext (ex_fit 2 30 0) 1) ex_dist ex_params ex_fit_1D None None 100
        ex_I1a_peak0
     = return_nans (PInt 10) 100 1"
proof -
  let ?E = "ex_ext (ex_fit 2 30 0) 1"
  have g1: "status_1D ex_fit_1D_two = 9" by (simp add: ex_defs)
  have g2: "status_1D ex_fit_1D \<noteq> 9 \<and> (\<exists>s \<in> set ex_dist_neg. counts s < 0)"
    by (simp add: ex_defs)
  have g3: "status_1D ex_fit_1D \<noteq> 9 \<and> (\<forall>s \<in> set ex_dist. 0 \<le> counts s)
      \<and> length (truncate_dist ex_I1a_slow ex_dist) < 7"
    by (simp add: ex_defs truncate_dist_def series_max_def fle_def)
  have g4: "status_1D ex_fit_1D \<noteq> 9 \<and> (\<forall>s \<in> set ex_dist_one_az. 0 \<le> counts s)
      \<and> 7 \<le> length (truncate_dist ex_I1a_peak0 ex_dist_one_az)
      \<and> (phi_bins (truncate_dist ex_I1a_peak0 ex_dist_one_az) < 3
          \<or> theta_bins (truncate_dist ex_I1a_peak0 ex_dist_one_az) < 3)"
    by (simp add: ex_defs truncate_dist_def series_max_def fle_def phi_bins_def)
  have g5: "status_1D ex_fit_1D \<noteq> 9 \<and> (\<forall>s \<in> set ex_dist. 0 \<le> counts s)
      \<and> 7 \<le> length (truncate_dist ex_I1a_peak0 ex_dist)
      \<and> 3 \<le> phi_bins (truncate_dist ex_I1a_peak0 ex_dist)
      \<and> 3 \<le> theta_bins (truncate_dist ex_I1a_peak0 ex_dist)
      \<and> (\<exists>r rs. ex_I1a_peak0 = r # rs
            \<and> label_1D (argmax_from r rs)
                < np_min (map (\<lambda>s. v_abs s / 1000) (truncate_dist ex_I1a_peak0 ex_dist)))"
    by (simp add: ex_defs truncate_dist_def series_max_def fle_def phi_bins_def theta_bins_def
        np_min_def)
  from g1 g2 g3 g4 g5
    prefit_gate_order [of ex_fit_1D_two ?E "[]" ex_params None None 100 "[]"]
    prefit_gate_order [of ex_fit_1D ?E ex_dist_neg ex_params None None 100 ex_I1a]
    prefit_gate_order [of ex_fit_1D ?E ex_dist ex_params None None 100 ex_I1a_slow]
    prefit_gate_order [of ex_fit_1D ?E ex_dist_one_az ex_params None None 100 ex_I1a_peak0]
    prefit_gate_order [of ex_fit_1D ?E ex_dist ex_params None None 100 ex_I1a_peak0]
  show ?thesis by (simp add: ex_params_def)
qed

section \<open>The shape of the returned record\<close>

text \<open>
  C6. For every input the driver returns one record and raises nothing: the record has
  exactly the sixteen fields of the data model (density, two thermal speeds, two
  temperatures, three velocity components, Time, Status, Instrument, B instrument, Bx, By,
  Bz and sigma B), each once, on the paths that complete the fit and on the paths that
  reject alike, and its Status field holds an integer.
\<close>

theorem record_always_complete:
  "\<exists>out k. iondistfitting ext distr params fit_1D mag4hz mag6s t I1a = Inr out
     \<and> keys out = set output_fields
     \<and> distinct (map fst out)
     \<and> length out = 16
     \<and> map_of out ''Status'' = Some (PInt k)"
proof -
  from driver_shape [of ext distr params fit_1D mag4hz mag6s t I1a]
  obtain out k where r: "iondistfitting ext distr params fit_1D mag4hz mag6s t I1a = Inr out"
    and ks: "keys out = set output_fields" and d: "distinct (map fst out)"
    and st: "map_of out ''Status'' = Some (PInt k)"
    by blast
  have "card (set (map fst out)) = length (map fst out)" using d by (rule distinct_card)
  then have "length out = card (set output_fields)" using ks by (simp add: keys_def)
  also have "\<dots> = 16" by (simp add: output_fields_def)
  finally have "length out = 16" .
  with r ks d st show ?thesis by blast
qed

theorem record_always_complete_witness:
  "\<exists>out k. iondistfitting (ex_ext (ex_fit 2 30 0) 1) ex_dist ex_params ex_fit_1D (Some ex_mag)
        None 100 ex_I1a = Inr out
     \<and> keys out = set output_fields
     \<and> distinct (map fst out)
     \<and> length out = 16
     \<and> map_of out ''Status'' = Some (PInt k)"
  by (rule record_always_complete)

section \<open>The status codes\<close>

text \<open>
  C10. The status of every record the driver returns is one of 1, 2, 4, 5, 6, 9, 10, 11
  and 12. The codes 3 and 13 are entries of the status dictionary, and no run returns them.
\<close>

theorem status_codes_returned:
  "\<exists>out k. iondistfitting ext distr params fit_1D mag4hz mag6s t I1a = Inr out
     \<and> map_of out ''Status'' = Some (PInt k)
     \<and> k \<in> {1, 2, 4, 5, 6, 9, 10, 11, 12} \<and> k \<noteq> 3 \<and> k \<noteq> 13
     \<and> k \<in> set (map fst statusdict)
     \<and> 3 \<in> set (map fst statusdict) \<and> 13 \<in> set (map fst statusdict)"
proof -
  from driver_shape [of ext distr params fit_1D mag4hz mag6s t I1a]
  obtain out k where r: "iondistfitting ext distr params fit_1D mag4hz mag6s t I1a = Inr out"
    and st: "map_of out ''Status'' = Some (PInt k)"
    and k: "k \<in> {1, 2, 4, 5, 6, 9, 10, 11, 12}"
    by blast
  from k have "k \<noteq> 3 \<and> k \<noteq> 13 \<and> k \<in> set (map fst statusdict)"
    by (auto simp: statusdict_def)
  moreover have "3 \<in> set (map fst statusdict) \<and> 13 \<in> set (map fst statusdict)"
    by (simp add: statusdict_def)
  ultimately show ?thesis using r st k by blast
qed

theorem status_codes_returned_witness:
  "\<exists>out k. iondistfitting (ex_ext (ex_fit 2 30 0) 5) ex_dist ex_params ex_fit_1D (Some ex_mag)
        None 100 ex_I1a = Inr out
     \<and> map_of out ''Status'' = Some (PInt k)
     \<and> k \<in> {1, 2, 4, 5, 6, 9, 10, 11, 12} \<and> k \<noteq> 3 \<and> k \<noteq> 13
     \<and> k \<in> set (map fst statusdict)
     \<and> 3 \<in> set (map fst statusdict) \<and> 13 \<in> set (map fst statusdict)"
  by (rule status_codes_returned)

section \<open>The gates after the fit\<close>

text \<open>
  The claim C5 says that, with a magnetic field, a fitted thermal speed below 5 gives
  status 12. It does not when the amplitude is out of range as well: the amplitude gate
  comes first and the record has status 11. Here the field is present, the solver has
  converged, the amplitude is 100 against a largest probability density of 2, and the
  perpendicular thermal speed is 3.
\<close>

theorem width_gate_counterexample:
  "prefit_gates ex_dist ex_fit_1D ex_I1a = Inr ex_dist
   \<and> magempty_of (fit_stage (ex_ext (ex_fit 100 3 0) 1) ex_dist ex_fit_1D (Some ex_mag) None 100
        [(''Instrument'', PInt 1)]) = False
   \<and> fitstatus_of (fit_stage (ex_ext (ex_fit 100 3 0) 1) ex_dist ex_fit_1D (Some ex_mag) None 100
        [(''Instrument'', PInt 1)]) = 1
   \<and> flt (fp_vth_perp (fitparams_of (fit_stage (ex_ext (ex_fit 100 3 0) 1) ex_dist ex_fit_1D
        (Some ex_mag) None 100 [(''Instrument'', PInt 1)]))) (Fin 5)
   \<and> iondistfitting (ex_ext (ex_fit 100 3 0) 1) ex_dist ex_params ex_fit_1D (Some ex_mag) None
        100 ex_I1a = return_nans (PInt 11) 100 1
   \<and> iondistfitting (ex_ext (ex_fit 100 3 0) 1) ex_dist ex_params ex_fit_1D (Some ex_mag) None
        100 ex_I1a \<noteq> return_nans (PInt 12) 100 1"
proof -
  have "iondistfitting (ex_ext (ex_fit 100 3 0) 1) ex_dist ex_params ex_fit_1D (Some ex_mag) None
        100 ex_I1a = return_nans (PInt 11) 100 1"
    by (simp add: driver_after_prefit [OF ex_prefit] ex_stage_field Let_def postfit_gates_def
        ex_fit_def ex_params_def fgt_def np_max_def)
  moreover have "return_nans (PInt 11) 100 1 \<noteq> return_nans (PInt 12) 100 1"
    by (simp add: return_nans_def)
  ultimately show ?thesis
    by (simp add: ex_prefit ex_stage_field ex_fit_def)
qed

text \<open>
  C5, amended. For every fit whose solver converges, after the gates before the fit have
  passed: with a magnetic field, an amplitude above 20 times or below 0.1 times the
  largest probability density gives status 11, and, when the amplitude is within that
  range, a perpendicular or parallel thermal speed below 5 gives status 12; without a
  magnetic field both checks are skipped (the gates pass) and the status of the record is
  2 or 4, never 11 or 12.
\<close>

theorem postfit_gates_need_field:
  fixes ext distr params fit_1D mag4hz mag6s t I1a d
  defines "drv \<equiv> iondistfitting ext distr params fit_1D mag4hz mag6s t I1a"
    and "i \<equiv> ion_instrument params"
  defines "f \<equiv> fit_stage ext d fit_1D mag4hz mag6s t [(''Instrument'', PInt i)]"
  defines "amplitude_out \<equiv>
      fgt (fp_A (fitparams_of f)) (Fin (20 * np_max (df_of f))) \<or>
      flt (fp_A (fitparams_of f)) (Fin (0.1 * np_max (df_of f)))"
    and "width_low \<equiv>
      flt (fp_vth_perp (fitparams_of f)) (Fin 5) \<or> flt (fp_vth_z (fitparams_of f)) (Fin 5)"
  assumes pre: "prefit_gates distr fit_1D I1a = Inr d"
    and conv: "fitstatus_of f \<in> {1, 2, 3, 4}"
  shows "(\<not> magempty_of f \<and> amplitude_out \<longrightarrow> drv = return_nans (PInt 11) t i)
       \<and> (\<not> magempty_of f \<and> \<not> amplitude_out \<and> width_low
            \<longrightarrow> drv = return_nans (PInt 12) t i)
       \<and> (magempty_of f \<longrightarrow>
            postfit_gates (fitparams_of f) (fitstatus_of f) (df_of f) (magempty_of f) = None
            \<and> (\<exists>out k. drv = Inr out \<and> map_of out ''Status'' = Some (PInt k) \<and> k \<in> {2, 4}))"
proof (intro conjI impI)
  note unf = driver_after_prefit [OF pre, of ext params mag4hz mag6s t, folded drv_def i_def,
      unfolded Let_def, folded f_def]
  {
    assume "\<not> magempty_of f \<and> amplitude_out"
    with conv have "postfit_gates (fitparams_of f) (fitstatus_of f) (df_of f) (magempty_of f)
        = Some 11"
      by (auto simp: postfit_gates_def amplitude_out_def)
    then show "drv = return_nans (PInt 11) t i" by (simp add: unf)
  }
  {
    assume "\<not> magempty_of f \<and> \<not> amplitude_out \<and> width_low"
    with conv have "postfit_gates (fitparams_of f) (fitstatus_of f) (df_of f) (magempty_of f)
        = Some 12"
      by (auto simp: postfit_gates_def amplitude_out_def width_low_def)
    then show "drv = return_nans (PInt 12) t i" by (simp add: unf)
  }
  {
    assume me: "magempty_of f"
    with conv show none:
      "postfit_gates (fitparams_of f) (fitstatus_of f) (df_of f) (magempty_of f) = None"
      by (auto simp: postfit_gates_def)
    from me have ok: "magempty_of f \<or> R_of f \<noteq> None" by simp
    from process_fitparams_form [OF ok, of ext params "vs_of f" "fitparams_of f"]
    show "\<exists>out k. drv = Inr out \<and> map_of out ''Status'' = Some (PInt k) \<and> k \<in> {2, 4}"
    proof
      assume "process_fitparams ext params (magempty_of f) (R_of f) (vs_of f)
                (fitparams_of f) ''p'' = Inr (Inl 4)"
      with none have "drv = return_nans (PInt 4) t i" by (simp add: unf)
      then show ?thesis by (simp add: return_nans_def)
    next
      assume "\<exists>a b c d n x y z.
            process_fitparams ext params (magempty_of f) (R_of f) (vs_of f) (fitparams_of f) ''p'' =
              Inr (Inr [(''vth_p_perp'', PFloat a), (''vth_p_par'', PFloat b),
                        (''Tp_perp'', PFloat c), (''Tp_par'', PFloat d),
                        (''n_p'', PFloat n),
                        (''vp_x'', PFloat x), (''vp_y'', PFloat y), (''vp_z'', PFloat z)])
            \<and> (magempty_of f \<longrightarrow> a = NaN \<and> b = NaN \<and> c = NaN \<and> d = NaN \<and> n = NaN)"
      then obtain fd where fd: "process_fitparams ext params (magempty_of f) (R_of f) (vs_of f)
          (fitparams_of f) ''p'' = Inr (Inr fd)"
        and fdk: "map fst fd = [''vth_p_perp'', ''vth_p_par'', ''Tp_perp'', ''Tp_par'', ''n_p'',
          ''vp_x'', ''vp_y'', ''vp_z'']"
        by auto
      have "drv = Inr (dict_update (dict_update (output_of f) fd)
                         [(''Time'', PTime t), (''Status'', PInt 2), (''Instrument'', PInt i)])"
        using none fd me by (simp add: unf)
      moreover have "map_of (dict_update (dict_update (output_of f) fd)
                         [(''Time'', PTime t), (''Status'', PInt 2), (''Instrument'', PInt i)])
                       ''Status'' = Some (PInt 2)"
        using fdk unfolding f_def fit_stage_output Let_def
        by (auto simp: map_eq_Cons_conv)
      ultimately show ?thesis by simp
    qed
  }
qed

theorem postfit_gates_need_field_witness:
  "iondistfitting (ex_ext (ex_fit 100 30 0) 1) ex_dist ex_params ex_fit_1D (Some ex_mag) None
      100 ex_I1a = return_nans (PInt 11) 100 1
   \<and> iondistfitting (ex_ext (ex_fit 2 3 0) 1) ex_dist ex_params ex_fit_1D (Some ex_mag) None
      100 ex_I1a = return_nans (PInt 12) 100 1
   \<and> postfit_gates (ex_fit 100 3 0) 1 [1, 1, 1, 1, 1, 1, 2] True = None
   \<and> (\<exists>out k. iondistfitting (ex_ext (ex_fit 100 3 0) 1) ex_dist ex_params ex_fit_1D None None
      100 ex_I1a = Inr out \<and> map_of out ''Status'' = Some (PInt k) \<and> k \<in> {2, 4})"
proof -
  have conv: "(1::int) \<in> {1, 2, 3, 4}" by simp
  have a: "fgt (fp_A (ex_fit 100 30 0)) (Fin (20 * np_max [1, 1, 1, 1, 1, 1, 2]))"
    by (simp add: ex_fit_def fgt_def np_max_def)
  have b: "\<not> fgt (fp_A (ex_fit 2 3 0)) (Fin (20 * np_max [1, 1, 1, 1, 1, 1, 2]))"
    "\<not> flt (fp_A (ex_fit 2 3 0)) (Fin (0.1 * np_max [1, 1, 1, 1, 1, 1, 2]))"
    "flt (fp_vth_perp (ex_fit 2 3 0)) (Fin 5)"
    by (simp_all add: ex_fit_def fgt_def np_max_def)
  from postfit_gates_need_field [OF ex_prefit, of "ex_ext (ex_fit 100 30 0) 1" "Some ex_mag" None
      100 ex_params] conv a
  have 1: "iondistfitting (ex_ext (ex_fit 100 30 0) 1) ex_dist ex_params ex_fit_1D (Some ex_mag)
      None 100 ex_I1a = return_nans (PInt 11) 100 (ion_instrument ex_params)"
    unfolding ex_stage_field by simp
  from postfit_gates_need_field [OF ex_prefit, of "ex_ext (ex_fit 2 3 0) 1" "Some ex_mag" None
      100 ex_params] conv b
  have 2: "iondistfitting (ex_ext (ex_fit 2 3 0) 1) ex_dist ex_params ex_fit_1D (Some ex_mag)
      None 100 ex_I1a = return_nans (PInt 12) 100 (ion_instrument ex_params)"
    unfolding ex_stage_field by simp
  from postfit_gates_need_field [OF ex_prefit, of "ex_ext (ex_fit 100 3 0) 1" None None
      100 ex_params] conv
  have 3: "postfit_gates (ex_fit 100 3 0) 1 [1, 1, 1, 1, 1, 1, 2] True = None
     \<and> (\<exists>out k. iondistfitting (ex_ext (ex_fit 100 3 0) 1) ex_dist ex_params ex_fit_1D None None
      100 ex_I1a = Inr out \<and> map_of out ''Status'' = Some (PInt k) \<and> k \<in> {2, 4})"
    unfolding ex_stage_no_field by simp
  from 1 2 3 show ?thesis by (simp add: ex_params_def)
qed

section \<open>The bulk velocity and the velocity range of the samples\<close>

text \<open>
  The claim C4 says that every converged fit whose bulk velocity lies outside the velocity
  range of the samples is returned with status 4. With a magnetic field the amplitude and
  thermal-speed gates come first: here the solver has converged, the x component of the
  bulk velocity is 5 against a largest sample velocity of 1, and the amplitude is 100
  against a largest probability density of 2; the record has status 11.
\<close>

theorem bulk_velocity_counterexample:
  "prefit_gates ex_dist ex_fit_1D ex_I1a = Inr ex_dist
   \<and> fitstatus_of (fit_stage (ex_ext (ex_fit 100 30 5) 1) ex_dist ex_fit_1D (Some ex_mag) None 100
        [(''Instrument'', PInt 1)]) = 1
   \<and> R_of (fit_stage (ex_ext (ex_fit 100 30 5) 1) ex_dist ex_fit_1D (Some ex_mag) None 100
        [(''Instrument'', PInt 1)]) = Some identity3
   \<and> matvec (transpose3 identity3) (Fin 5, Fin 0, Fin 0) = (Fin 5, Fin 0, Fin 0)
   \<and> vs_of (fit_stage (ex_ext (ex_fit 100 30 5) 1) ex_dist ex_fit_1D (Some ex_mag) None 100
        [(''Instrument'', PInt 1)])
       = [(1, 0, 0), (- 1, 0, 0), (0, 1, 0), (0, - 1, 0), (0, 0, 1), (0, 0, - 1), (0, 0, 0)]
   \<and> fgt (Fin 5) (Fin (np_max [1, - 1, 0, 0, 0, 0, 0]))
   \<and> iondistfitting (ex_ext (ex_fit 100 30 5) 1) ex_dist ex_params ex_fit_1D (Some ex_mag) None
        100 ex_I1a = return_nans (PInt 11) 100 1
   \<and> iondistfitting (ex_ext (ex_fit 100 30 5) 1) ex_dist ex_params ex_fit_1D (Some ex_mag) None
        100 ex_I1a \<noteq> return_nans (PInt 4) 100 1"
proof -
  have "iondistfitting (ex_ext (ex_fit 100 30 5) 1) ex_dist ex_params ex_fit_1D (Some ex_mag) None
        100 ex_I1a = return_nans (PInt 11) 100 1"
    by (simp add: driver_after_prefit [OF ex_prefit] ex_stage_field Let_def postfit_gates_def
        ex_fit_def ex_params_def fgt_def np_max_def)
  moreover have "return_nans (PInt 11) 100 1 \<noteq> return_nans (PInt 4) 100 1"
    by (simp add: return_nans_def)
  ultimately show ?thesis
    by (simp add: ex_prefit ex_stage_field ex_fit_def fgt_def np_max_def nth3_def matvec_def
        transpose3_def fdot_def identity3_def)
qed

text \<open>
  C4, amended. For every fit whose solver converges and which the gates on the amplitude
  and the thermal speeds do not reject (they are passed over when there is no magnetic
  field): if a component of the fitted bulk velocity, rotated back to the spacecraft frame
  when there is a field, is below the smallest or above the largest sample velocity of its
  axis, or the magnitude of the bulk velocity is below the smallest sample speed, then the
  record is the missing-data record with status 4: density, temperatures, thermal speeds
  and velocities are not-a-number.
\<close>

theorem bulk_velocity_out_of_bounds:
  fixes ext distr params fit_1D mag4hz mag6s t I1a d v
  defines "drv \<equiv> iondistfitting ext distr params fit_1D mag4hz mag6s t I1a"
    and "i \<equiv> ion_instrument params"
  defines "f \<equiv> fit_stage ext d fit_1D mag4hz mag6s t [(''Instrument'', PInt i)]"
  defines "v_fit \<equiv> (fp_vbx (fitparams_of f), fp_vby (fitparams_of f), fp_vbz (fitparams_of f))"
    and "vs \<equiv> map (\<lambda>s. (vx s / 1000, vy s / 1000, vz s / 1000)) d"
  assumes pre: "prefit_gates distr fit_1D I1a = Inr d"
    and conv: "fitstatus_of f \<in> {1, 2, 3, 4}"
    and plausible: "magempty_of f \<or>
       (\<not> fgt (fp_A (fitparams_of f)) (Fin (20 * np_max (df_of f))) \<and>
        \<not> flt (fp_A (fitparams_of f)) (Fin (0.1 * np_max (df_of f))) \<and>
        \<not> flt (fp_vth_perp (fitparams_of f)) (Fin 5) \<and>
        \<not> flt (fp_vth_z (fitparams_of f)) (Fin 5))"
    and frame: "(magempty_of f \<and> v = v_fit) \<or>
       (\<exists>R. \<not> magempty_of f \<and> R_of f = Some R \<and> v = matvec (transpose3 R) v_fit)"
    and outside: "(\<exists>j<3. flt (nth3 v j) (Fin (np_min (map (\<lambda>u. nth3 u j) vs))) \<or>
                        fgt (nth3 v j) (Fin (np_max (map (\<lambda>u. nth3 u j) vs))))
       \<or> flt (fnorm3 v) (Fin (np_min (map norm3 vs)))"
  shows "drv = return_nans (PInt 4) t i
     \<and> (\<exists>out. drv = Inr out
          \<and> map_of out ''Status'' = Some (PInt 4)
          \<and> map_of out ''n_p'' = Some (PFloat NaN)
          \<and> map_of out ''Tp_perp'' = Some (PFloat NaN)
          \<and> map_of out ''Tp_par'' = Some (PFloat NaN)
          \<and> map_of out ''vth_p_perp'' = Some (PFloat NaN)
          \<and> map_of out ''vth_p_par'' = Some (PFloat NaN)
          \<and> map_of out ''vp_x'' = Some (PFloat NaN)
          \<and> map_of out ''vp_y'' = Some (PFloat NaN)
          \<and> map_of out ''vp_z'' = Some (PFloat NaN))"
proof -
  note unf = driver_after_prefit [OF pre, of ext params mag4hz mag6s t, folded drv_def i_def,
      unfolded Let_def, folded f_def]
  have vs: "vs_of f = vs" by (simp add: f_def vs_def fit_stage_vs)
  from conv plausible
  have none: "postfit_gates (fitparams_of f) (fitstatus_of f) (df_of f) (magempty_of f) = None"
    by (auto simp: postfit_gates_def)
  from outside have "bulk_check [0, 1, 2] v (vs_of f)"
    unfolding vs bulk_check_iff .
  with frame have "process_fitparams ext params (magempty_of f) (R_of f) (vs_of f)
      (fitparams_of f) ''p'' = Inr (Inl 4)"
    unfolding v_fit_def by (rule process_fitparams_four)
  with none have "drv = return_nans (PInt 4) t i" by (simp add: unf)
  then show ?thesis by (simp add: return_nans_def)
qed

theorem bulk_velocity_out_of_bounds_witness:
  "iondistfitting (ex_ext (ex_fit 2 30 5) 1) ex_dist ex_params ex_fit_1D (Some ex_mag) None
      100 ex_I1a = return_nans (PInt 4) 100 1
   \<and> iondistfitting (ex_ext (ex_fit 100 3 5) 1) ex_dist ex_params ex_fit_1D None None
      100 ex_I1a = return_nans (PInt 4) 100 1
   \<and> iondistfitting (ex_ext (ex_fit 2 30 0) 1) ex_dist_shell ex_params ex_fit_1D (Some ex_mag) None
      100 ex_I1a = return_nans (PInt 4) 100 1"
proof -
  note evals = ex_fit_def fgt_def np_max_def np_min_def nth3_def matvec_def transpose3_def
    fdot_def identity3_def fnorm3_def norm3_def ex_dist_def ex_dist_shell_def ex_sample_def
    ex_less_3
  have 1: "iondistfitting (ex_ext (ex_fit 2 30 5) 1) ex_dist ex_params ex_fit_1D (Some ex_mag)
      None 100 ex_I1a = return_nans (PInt 4) 100 (ion_instrument ex_params)"
    by (rule bulk_velocity_out_of_bounds [where v = "matvec (transpose3 identity3) (Fin 5, Fin 0, Fin 0)",
          THEN conjunct1, OF ex_prefit])
       (unfold ex_stage_field, simp_all add: evals)
  have 2: "iondistfitting (ex_ext (ex_fit 100 3 5) 1) ex_dist ex_params ex_fit_1D None
      None 100 ex_I1a = return_nans (PInt 4) 100 (ion_instrument ex_params)"
    by (rule bulk_velocity_out_of_bounds [where v = "(Fin 5, Fin 0, Fin 0)",
          THEN conjunct1, OF ex_prefit])
       (unfold ex_stage_no_field, simp_all add: evals)
  have 3: "iondistfitting (ex_ext (ex_fit 2 30 0) 1) ex_dist_shell ex_params ex_fit_1D
      (Some ex_mag) None 100 ex_I1a = return_nans (PInt 4) 100 (ion_instrument ex_params)"
    by (rule bulk_velocity_out_of_bounds [where v = "matvec (transpose3 identity3) (Fin 0, Fin 0, Fin 0)",
          THEN conjunct1, OF ex_prefit_shell])
       (unfold ex_stage_shell, simp_all add: evals)
  from 1 2 3 show ?thesis by (simp add: ex_params_def)
qed

section \<open>The magnetic field in the returned record\<close>

text \<open>
  The claim C1 says that the mean field and sigma B are in the returned record whatever
  the outcome of the fit. Every rejection returns the record of \<open>return_nans\<close>, which
  holds not-a-number under every field key: here the 4 Hz series has a sample in the
  window, with mean field (0, 0, 5), the solver fails with status 5, and the record has
  status 6 and no field.
\<close>

theorem field_dropped_counterexample:
  "select_mag (Some ex_mag) None (dist_starttime 100 ex_dist) (dist_endtime 100 ex_dist)
      = (False, ex_mag, PInt 1)
   \<and> np_mean (map Bz ex_mag) = 5
   \<and> iondistfitting (ex_ext (ex_fit 2 30 0) 5) ex_dist ex_params ex_fit_1D (Some ex_mag) None
        100 ex_I1a =
      Inr [(''n_p'', PFloat NaN), (''vth_p_perp'', PFloat NaN), (''vth_p_par'', PFloat NaN),
           (''Tp_perp'', PFloat NaN), (''Tp_par'', PFloat NaN),
           (''vp_x'', PFloat NaN), (''vp_y'', PFloat NaN), (''vp_z'', PFloat NaN),
           (''Time'', PTime 100), (''Status'', PInt 6), (''Instrument'', PInt 1),
           (''B instrument'', PFloat NaN),
           (''Bx'', PFloat NaN), (''By'', PFloat NaN), (''Bz'', PFloat NaN),
           (''sigma B'', PFloat NaN)]"
proof -
  have "select_mag (Some ex_mag) None (dist_starttime 100 ex_dist) (dist_endtime 100 ex_dist)
      = (False, ex_mag, PInt 1)"
    by (simp add: select_mag_def in_window_def dist_starttime_def dist_endtime_def ex_defs)
  moreover have "np_mean (map Bz ex_mag) = 5" by (simp add: np_mean_def ex_mag_def)
  moreover have "iondistfitting (ex_ext (ex_fit 2 30 0) 5) ex_dist ex_params ex_fit_1D
      (Some ex_mag) None 100 ex_I1a = return_nans (PInt 6) 100 1"
    by (simp add: driver_after_prefit [OF ex_prefit] ex_stage_field Let_def postfit_gates_def
        ex_params_def)
  ultimately show ?thesis by (simp add: return_nans_def)
qed

text \<open>
  C1, amended. For every distribution for which magnetic field data exists in the
  measurement window, the mean field vector (Bx, By, Bz) and the norm of the
  per-component standard deviation (sigma B) are in the returned record when the fit is
  accepted (status 1); the rejections after the field has been resolved (status 6, 11, 12
  and 4) return the missing-data record, where Bx, By, Bz and sigma B are not-a-number.
\<close>

theorem field_kept_on_success_only:
  fixes ext distr params fit_1D mag4hz mag6s t I1a d mag b_instrument
  defines "drv \<equiv> iondistfitting ext distr params fit_1D mag4hz mag6s t I1a"
    and "i \<equiv> ion_instrument params"
  assumes pre: "prefit_gates distr fit_1D I1a = Inr d"
    and sel: "select_mag mag4hz mag6s (dist_starttime t d) (dist_endtime t d)
                = (False, mag, b_instrument)"
  shows "(\<exists>k out. k \<in> {4, 6, 11, 12} \<and> drv = return_nans (PInt k) t i \<and> drv = Inr out
            \<and> map_of out ''Status'' = Some (PInt k)
            \<and> map_of out ''Bx'' = Some (PFloat NaN)
            \<and> map_of out ''By'' = Some (PFloat NaN)
            \<and> map_of out ''Bz'' = Some (PFloat NaN)
            \<and> map_of out ''sigma B'' = Some (PFloat NaN))
       \<or> (\<exists>out. drv = Inr out
            \<and> map_of out ''Status'' = Some (PInt 1)
            \<and> map_of out ''Bx'' = Some (PFloat (Fin (np_mean (map Bx mag))))
            \<and> map_of out ''By'' = Some (PFloat (Fin (np_mean (map By mag))))
            \<and> map_of out ''Bz'' = Some (PFloat (Fin (np_mean (map Bz mag))))
            \<and> map_of out ''sigma B'' = Some (PFloat (Fin (norm3
                  (np_std (map Bx mag), np_std (map By mag), np_std (map Bz mag))))))"
proof -
  define f where "f = fit_stage ext d fit_1D mag4hz mag6s t [(''Instrument'', PInt i)]"
  note unf = driver_after_prefit [OF pre, of ext params mag4hz mag6s t, folded drv_def i_def,
      unfolded Let_def, folded f_def]
  from fit_stage_select [OF sel] have me: "\<not> magempty_of f" and mag: "mag_of f = mag"
    by (simp_all add: f_def)
  have rej: ?thesis if "drv = return_nans (PInt k) t i" and "k \<in> {4, 6, 11, 12}" for k
    using that by (auto simp: return_nans_def)
  show ?thesis
  proof (cases "postfit_gates (fitparams_of f) (fitstatus_of f) (df_of f) (magempty_of f)")
    case (Some k)
    from postfit_gates_status [OF Some] have "k \<in> {4, 6, 11, 12}" by auto
    moreover from Some have "drv = return_nans (PInt k) t i" by (simp add: unf)
    ultimately show ?thesis by (rule rej [rotated])
  next
    case None
    from fit_stage_R [of ext d fit_1D mag4hz mag6s t] me
    have ok: "magempty_of f \<or> R_of f \<noteq> None" by (simp add: f_def)
    from process_fitparams_form [OF ok, of ext params "vs_of f" "fitparams_of f"]
    show ?thesis
    proof
      assume "process_fitparams ext params (magempty_of f) (R_of f) (vs_of f)
                (fitparams_of f) ''p'' = Inr (Inl 4)"
      with None have "drv = return_nans (PInt 4) t i" by (simp add: unf)
      then show ?thesis by (rule rej) simp
    next
      assume "\<exists>a b c d n x y z.
            process_fitparams ext params (magempty_of f) (R_of f) (vs_of f) (fitparams_of f) ''p'' =
              Inr (Inr [(''vth_p_perp'', PFloat a), (''vth_p_par'', PFloat b),
                        (''Tp_perp'', PFloat c), (''Tp_par'', PFloat d),
                        (''n_p'', PFloat n),
                        (''vp_x'', PFloat x), (''vp_y'', PFloat y), (''vp_z'', PFloat z)])
            \<and> (magempty_of f \<longrightarrow> a = NaN \<and> b = NaN \<and> c = NaN \<and> d = NaN \<and> n = NaN)"
      then obtain a b c e n x y z where fd:
        "process_fitparams ext params (magempty_of f) (R_of f) (vs_of f) (fitparams_of f) ''p'' =
              Inr (Inr [(''vth_p_perp'', PFloat a), (''vth_p_par'', PFloat b),
                        (''Tp_perp'', PFloat c), (''Tp_par'', PFloat e),
                        (''n_p'', PFloat n),
                        (''vp_x'', PFloat x), (''vp_y'', PFloat y), (''vp_z'', PFloat z)])"
        by blast
      have out: "output_of f =
         [(''Instrument'', PInt i),
          (''B instrument'',
             snd (snd (select_mag mag4hz mag6s (dist_starttime t d) (dist_endtime t d)))),
          (''Bx'', PFloat (Fin (np_mean (map Bx mag)))),
          (''By'', PFloat (Fin (np_mean (map By mag)))),
          (''Bz'', PFloat (Fin (np_mean (map Bz mag)))),
          (''sigma B'', PFloat
             (Fin (norm3 (np_std (map Bx mag), np_std (map By mag), np_std (map Bz mag)))))]"
        using me mag unfolding f_def fit_stage_output Let_def by simp
      from None fd me show ?thesis
        by (simp add: unf out)
    qed
  qed
qed

theorem field_kept_on_success_only_witness:
  "((\<exists>k out. k \<in> {4, 6, 11, 12}
        \<and> iondistfitting (ex_ext (ex_fit 2 30 0) 1) ex_dist ex_params ex_fit_1D (Some ex_mag) None
             100 ex_I1a = return_nans (PInt k) 100 1
        \<and> iondistfitting (ex_ext (ex_fit 2 30 0) 1) ex_dist ex_params ex_fit_1D (Some ex_mag) None
             100 ex_I1a = Inr out
        \<and> map_of out ''Status'' = Some (PInt k)
        \<and> map_of out ''Bx'' = Some (PFloat NaN)
        \<and> map_of out ''By'' = Some (PFloat NaN)
        \<and> map_of out ''Bz'' = Some (PFloat NaN)
        \<and> map_of out ''sigma B'' = Some (PFloat NaN))
    \<or> (\<exists>out. iondistfitting (ex_ext (ex_fit 2 30 0) 1) ex_dist ex_params ex_fit_1D (Some ex_mag)
             None 100 ex_I1a = Inr out
        \<and> map_of out ''Status'' = Some (PInt 1)
        \<and> map_of out ''Bx'' = Some (PFloat (Fin 0))
        \<and> map_of out ''By'' = Some (PFloat (Fin 0))
        \<and> map_of out ''Bz'' = Some (PFloat (Fin 5))
        \<and> map_of out ''sigma B'' = Some (PFloat (Fin 0))))"
proof -
  have sel: "select_mag (Some ex_mag) None (dist_starttime 100 ex_dist) (dist_endtime 100 ex_dist)
      = (False, ex_mag, PInt 1)"
    by (simp add: select_mag_def in_window_def dist_starttime_def dist_endtime_def ex_defs)
  have vals: "np_mean (map Bx ex_mag) = 0" "np_mean (map By ex_mag) = 0"
    "np_mean (map Bz ex_mag) = 5"
    "norm3 (np_std (map Bx ex_mag), np_std (map By ex_mag), np_std (map Bz ex_mag)) = 0"
    by (simp_all add: np_mean_def np_std_def norm3_def ex_mag_def)
  from field_kept_on_success_only [OF ex_prefit sel, of "ex_ext (ex_fit 2 30 0) 1" ex_params]
  show ?thesis unfolding vals by (simp add: ex_params_def)
qed

section \<open>Runs without a magnetic field\<close>

text \<open>
  C2. The claim is that, when neither series has a sample in the window, the record of a
  fit that otherwise succeeds has status 2 and not-a-number under \<open>'B instrument'\<close>, the
  field keys and the temperatures. The driver does so when the 6 s series is given and
  empty in the window. When the 6 s series is absent (\<open>None\<close>), the branch commented
  "4Hz data available" is taken although \<open>magempty\<close> is true: the record has status 2,
  no field and no temperatures, and \<open>'B instrument'\<close> is 1. The theorem states what the
  driver returns in that case.
\<close>

theorem b_instrument_without_6s:
  fixes ext distr params fit_1D mag4hz mag6s t I1a d
  defines "drv \<equiv> iondistfitting ext distr params fit_1D mag4hz mag6s t I1a"
    and "i \<equiv> ion_instrument params"
  assumes pre: "prefit_gates distr fit_1D I1a = Inr d"
    and no4: "mag4hz = None \<or>
       (\<exists>m. mag4hz = Some m \<and> in_window (dist_starttime t d) (dist_endtime t d) m = [])"
    and no6: "mag6s = None"
  shows "(\<exists>k. k \<in> {4, 6} \<and> drv = return_nans (PInt k) t i)
       \<or> (\<exists>out. drv = Inr out
            \<and> map_of out ''Status'' = Some (PInt 2)
            \<and> map_of out ''B instrument'' = Some (PInt 1)
            \<and> map_of out ''Bx'' = Some (PFloat NaN)
            \<and> map_of out ''By'' = Some (PFloat NaN)
            \<and> map_of out ''Bz'' = Some (PFloat NaN)
            \<and> map_of out ''sigma B'' = Some (PFloat NaN)
            \<and> map_of out ''Tp_perp'' = Some (PFloat NaN)
            \<and> map_of out ''Tp_par'' = Some (PFloat NaN))"
proof -
  define f where "f = fit_stage ext d fit_1D mag4hz mag6s t [(''Instrument'', PInt i)]"
  note unf = driver_after_prefit [OF pre, of ext params mag4hz mag6s t, folded drv_def i_def,
      unfolded Let_def, folded f_def]
  from no4 no6
  have sel: "select_mag mag4hz mag6s (dist_starttime t d) (dist_endtime t d) = (True, [], PInt 1)"
    by (auto simp: select_mag_def Let_def)
  from fit_stage_select [OF sel] have me: "magempty_of f" by (simp add: f_def)
  have out: "output_of f =
     [(''Instrument'', PInt i), (''B instrument'', PInt 1),
      (''Bx'', PFloat NaN), (''By'', PFloat NaN), (''Bz'', PFloat NaN), (''sigma B'', PFloat NaN)]"
    using me unfolding f_def fit_stage_output Let_def by (simp add: sel)
  show ?thesis
  proof (cases "postfit_gates (fitparams_of f) (fitstatus_of f) (df_of f) (magempty_of f)")
    case (Some k)
    with me have "k = 6" by (auto simp: postfit_gates_def split: if_splits)
    with Some have "drv = return_nans (PInt 6) t i" by (simp add: unf)
    then show ?thesis by (intro disjI1 exI [of _ 6]) simp
  next
    case None
    from me have ok: "magempty_of f \<or> R_of f \<noteq> None" by simp
    from process_fitparams_form [OF ok, of ext params "vs_of f" "fitparams_of f"]
    show ?thesis
    proof
      assume "process_fitparams ext params (magempty_of f) (R_of f) (vs_of f)
                (fitparams_of f) ''p'' = Inr (Inl 4)"
      with None have "drv = return_nans (PInt 4) t i" by (simp add: unf)
      then show ?thesis by (intro disjI1 exI [of _ 4]) simp
    next
      assume "\<exists>a b c d n x y z.
            process_fitparams ext params (magempty_of f) (R_of f) (vs_of f) (fitparams_of f) ''p'' =
              Inr (Inr [(''vth_p_perp'', PFloat a), (''vth_p_par'', PFloat b),
                        (''Tp_perp'', PFloat c), (''Tp_par'', PFloat d),
                        (''n_p'', PFloat n),
                        (''vp_x'', PFloat x), (''vp_y'', PFloat y), (''vp_z'', PFloat z)])
            \<and> (magempty_of f \<longrightarrow> a = NaN \<and> b = NaN \<and> c = NaN \<and> d = NaN \<and> n = NaN)"
      with me obtain x y z where
        "process_fitparams ext params (magempty_of f) (R_of f) (vs_of f) (fitparams_of f) ''p'' =
              Inr (Inr [(''vth_p_perp'', PFloat NaN), (''vth_p_par'', PFloat NaN),
                        (''Tp_perp'', PFloat NaN), (''Tp_par'', PFloat NaN),
                        (''n_p'', PFloat NaN),
                        (''vp_x'', PFloat x), (''vp_y'', PFloat y), (''vp_z'', PFloat z)])"
        by auto
      with None me show ?thesis by (simp add: unf out)
    qed
  qed
qed

theorem b_instrument_without_6s_witness:
  "iondistfitting (ex_ext (ex_fit 2 30 0) 1) ex_dist ex_params ex_fit_1D None None 100 ex_I1a
     = Inr ex_no_field_record
   \<and> map_of ex_no_field_record ''Status'' = Some (PInt 2)
   \<and> map_of ex_no_field_record ''B instrument'' = Some (PInt 1)
   \<and> map_of ex_no_field_record ''Bx'' = Some (PFloat NaN)
   \<and> map_of ex_no_field_record ''Tp_perp'' = Some (PFloat NaN)"
proof -
  let ?drv = "iondistfitting (ex_ext (ex_fit 2 30 0) 1) ex_dist ex_params ex_fit_1D None None
    100 ex_I1a"
  from b_instrument_without_6s [OF ex_prefit, of None 100 None "ex_ext (ex_fit 2 30 0) 1"
      ex_params]
  consider (rejected) k where "?drv = return_nans (PInt k) 100 (ion_instrument ex_params)"
    | (completed) out where "?drv = Inr out" "map_of out ''Status'' = Some (PInt 2)"
        "map_of out ''B instrument'' = Some (PInt 1)" "map_of out ''Bx'' = Some (PFloat NaN)"
        "map_of out ''Tp_perp'' = Some (PFloat NaN)"
    by auto
  then show ?thesis
  proof cases
    case rejected
    then have False
      by (simp add: ex_no_field_run return_nans_def ex_no_field_record_def)
    then show ?thesis ..
  next
    case completed
    from completed(1) have "out = ex_no_field_record" by (simp add: ex_no_field_run)
    with completed show ?thesis by simp
  qed
qed

text \<open>
  C9. The claim is that a record with status 2 has no thermal speeds and no temperatures,
  while its density and velocities are numbers. \<open>process_fitparams\<close> overwrites the
  two fitted thermal speeds with not-a-number before it computes the density from them,
  so the density is not-a-number as well, against the comment "If no magnetic field, still
  get a number density and velocities". The theorem states what every record with status
  2 holds: density, thermal speeds and temperatures are all not-a-number.
\<close>

theorem density_missing_without_field:
  assumes run: "iondistfitting ext distr params fit_1D mag4hz mag6s t I1a = Inr out"
    and st: "map_of out ''Status'' = Some (PInt 2)"
  shows "map_of out ''n_p'' = Some (PFloat NaN)
       \<and> map_of out ''vth_p_perp'' = Some (PFloat NaN)
       \<and> map_of out ''vth_p_par'' = Some (PFloat NaN)
       \<and> map_of out ''Tp_perp'' = Some (PFloat NaN)
       \<and> map_of out ''Tp_par'' = Some (PFloat NaN)"
proof -
  let ?i = "ion_instrument params"
  have rej: False if "iondistfitting ext distr params fit_1D mag4hz mag6s t I1a
      = return_nans (PInt k) t ?i" and "k \<noteq> 2" for k
    using that run st by (auto simp: return_nans_def)
  from driver_cases [of distr fit_1D I1a ext params mag4hz mag6s t]
  show ?thesis
  proof (elim disjE exE conjE)
    fix k assume "prefit_gates distr fit_1D I1a = Inl k"
      and r: "iondistfitting ext distr params fit_1D mag4hz mag6s t I1a = return_nans (PInt k) t ?i"
    from prefit_gates_status [OF this(1)] have "k \<noteq> 2" by auto
    with r show ?thesis using rej by blast
  next
    fix d f k assume "postfit_gates (fitparams_of f) (fitstatus_of f) (df_of f) (magempty_of f) = Some k"
      and r: "iondistfitting ext distr params fit_1D mag4hz mag6s t I1a = return_nans (PInt k) t ?i"
    from postfit_gates_status [OF this(1)] have "k \<noteq> 2" by auto
    with r show ?thesis using rej by blast
  next
    assume "iondistfitting ext distr params fit_1D mag4hz mag6s t I1a = return_nans (PInt 4) t ?i"
    then show ?thesis using rej [of 4] by simp
  next
    fix d f a b c e n x y z
    assume f: "f = fit_stage ext d fit_1D mag4hz mag6s t [(''Instrument'', PInt ?i)]"
      and nans: "magempty_of f \<longrightarrow> a = NaN \<and> b = NaN \<and> c = NaN \<and> e = NaN \<and> n = NaN"
      and r: "iondistfitting ext distr params fit_1D mag4hz mag6s t I1a =
        Inr (output_of f @
               [(''vth_p_perp'', PFloat a), (''vth_p_par'', PFloat b),
                (''Tp_perp'', PFloat c), (''Tp_par'', PFloat e),
                (''n_p'', PFloat n),
                (''vp_x'', PFloat x), (''vp_y'', PFloat y), (''vp_z'', PFloat z),
                (''Time'', PTime t),
                (''Status'', PInt (if magempty_of f then 2 else 1))])"
    have o: "\<exists>bi bx by bz sb. output_of f =
        [(''Instrument'', PInt ?i), (''B instrument'', bi),
         (''Bx'', bx), (''By'', by), (''Bz'', bz), (''sigma B'', sb)]"
      unfolding f fit_stage_output Let_def by simp
    from r run have out: "out = output_of f @
               [(''vth_p_perp'', PFloat a), (''vth_p_par'', PFloat b),
                (''Tp_perp'', PFloat c), (''Tp_par'', PFloat e),
                (''n_p'', PFloat n),
                (''vp_x'', PFloat x), (''vp_y'', PFloat y), (''vp_z'', PFloat z),
                (''Time'', PTime t),
                (''Status'', PInt (if magempty_of f then 2 else 1))]" by simp
    from o st have "magempty_of f" unfolding out by (auto split: if_splits)
    with nans o show ?thesis unfolding out by auto
  qed
qed

theorem density_missing_without_field_witness:
  "iondistfitting (ex_ext (ex_fit 2 30 0) 1) ex_dist ex_params ex_fit_1D None None 100 ex_I1a
     = Inr ex_no_field_record
   \<and> map_of ex_no_field_record ''Status'' = Some (PInt 2)
   \<and> map_of ex_no_field_record ''n_p'' = Some (PFloat NaN)
   \<and> map_of ex_no_field_record ''vth_p_perp'' = Some (PFloat NaN)
   \<and> map_of ex_no_field_record ''vth_p_par'' = Some (PFloat NaN)
   \<and> map_of ex_no_field_record ''Tp_perp'' = Some (PFloat NaN)
   \<and> map_of ex_no_field_record ''Tp_par'' = Some (PFloat NaN)
   \<and> map_of ex_no_field_record ''vp_x'' = Some (PFloat (Fin 30))"
proof -
  have st: "map_of ex_no_field_record ''Status'' = Some (PInt 2)"
    and vx: "map_of ex_no_field_record ''vp_x'' = Some (PFloat (Fin 30))"
    by (simp_all add: ex_no_field_record_def)
  from density_missing_without_field [OF ex_no_field_run st] ex_no_field_run st vx
  show ?thesis by blast
qed

end
